theory Spec2Isabelle
  imports Complex_Main "HOL-Library.Product_Lexorder" "HOL-Library.List_Lexorder"
    "HOL-Library.Char_ord" "HOL-Library.Multiset"
begin

section \<open>Numbers\<close>

text \<open>
  The tables hold IEEE doubles. A value is modelled as an exact real extended with the
  three special values a double can take; rounding and the sign of zero are not
  modelled. A quotient of two columns and a threshold read from the configuration can
  be any \<open>pyfloat\<close>.
\<close>

datatype pyfloat = Fin real | PInf | NInf | NaN

text \<open>
  A numeric cell of a canonical dataset is a 64-bit integer or a finite float: the
  normalizers reject NaN, and infinite cells are left out of the model. A column has
  one dtype, so its cells are all integers or all floats.
\<close>

datatype num = I64 int | F64 real

fun val :: "num \<Rightarrow> real" where
  "val (I64 n) = of_int n"
| "val (F64 x) = x"

fun is_int64 :: "num \<Rightarrow> bool" where
  "is_int64 (I64 n) = True"
| "is_int64 (F64 x) = False"

fun int_of :: "num \<Rightarrow> int" where
  "int_of (I64 n) = n"
| "int_of (F64 x) = 0"

text \<open>Two's complement: the value a 64-bit signed integer holds after an overflow.\<close>

definition wrap64 :: "int \<Rightarrow> int" where
  "wrap64 n = (n + 2 ^ 63) mod 2 ^ 64 - 2 ^ 63"

text \<open>\<open>Series.sum()\<close>: over an integer column the sum is accumulated in 64 bits and
  wraps around silently; over a float column it is the sum of the values. The sum of
  no cells is 0.\<close>

definition series_sum :: "num list \<Rightarrow> real" where
  "series_sum xs =
     (if list_all is_int64 xs then of_int (wrap64 (sum_list (map int_of xs)))
      else sum_list (map val xs))"

text \<open>Elementwise division of two float columns: no exception, a zero divisor gives
  an infinity or, for \<open>0 / 0\<close>, NaN.\<close>

definition fdiv :: "real \<Rightarrow> real \<Rightarrow> pyfloat" where
  "fdiv x y =
     (if y \<noteq> 0 then Fin (x / y)
      else if x = 0 then NaN
      else if 0 < x then PInf else NInf)"

text \<open>\<open>a <= b\<close> on doubles: every comparison with NaN is false.\<close>

fun fle :: "pyfloat \<Rightarrow> pyfloat \<Rightarrow> bool" where
  "fle NaN _ = False"
| "fle _ NaN = False"
| "fle NInf _ = True"
| "fle _ PInf = True"
| "fle (Fin a) (Fin b) = (a \<le> b)"
| "fle _ _ = False"

definition fge :: "pyfloat \<Rightarrow> pyfloat \<Rightarrow> bool" where
  "fge a b = fle b a"

section \<open>Dates\<close>

text \<open>A calendar date is (year, month, day), ordered lexicographically, which is the
  order of its ISO rendering \<open>YYYY-MM-DD\<close>. A datetime adds the time of day.\<close>

type_synonym date = "nat \<times> nat \<times> nat"

datatype datetime = Datetime date nat

fun date_of :: "datetime \<Rightarrow> date" where
  "date_of (Datetime d _) = d"

section \<open>Payload values and errors\<close>

text \<open>A payload is any value a JSON document decodes to, or a datetime. A mapping is an
  association list with distinct keys.\<close>

datatype pyval =
    PNone
  | PBool bool
  | PInt int
  | PFloat pyfloat
  | PStr string
  | PDatetime datetime
  | PList "pyval list"
  | PDict "(string \<times> pyval) list"

text \<open>The messages of \<open>DataShapeError\<close>: the two formatted ones keep what they
  interpolate (the key list; the key list and the item; the value), the fixed ones
  their text.\<close>

datatype shape_error =
    ExpectedListPayload "string list"
  | MissingRequiredKeys "string list" pyval
  | UnableToParseDate pyval
  | Message string

text \<open>An exception raised inside a library call, by the name of its class.\<close>

datatype lib_exc = LibExc string

datatype error =
    DataShapeError shape_error
  | ValueError string
  | TypeError
  | AttributeError
  | KeyError
  | IndexError
  | Raised lib_exc

definition and_then :: "'e + 'a \<Rightarrow> ('a \<Rightarrow> 'e + 'b) \<Rightarrow> 'e + 'b" where
  "and_then x f = (case x of Inl e \<Rightarrow> Inl e | Inr v \<Rightarrow> f v)"

text \<open>
  The parsing functions of the libraries are parameters of the model:
  \<^item> \<open>to_datetime s\<close> is \<open>pd.to_datetime(s).date()\<close>, a calendar date or the exception
    the parser raises. The missing timestamp \<open>NaT\<close>, which the parser returns for
    the empty string and which the source renders as the string \<open>NaT\<close>, is not a
    value of the model;
  \<^item> \<open>utcfromtimestamp x\<close> is \<open>datetime.utcfromtimestamp(x).date()\<close>, a calendar date
    or the exception raised for a value out of range;
  \<^item> \<open>to_numeric v\<close> is \<open>pd.to_numeric\<close> with \<open>errors="coerce"\<close> on one cell: an
    integer, a float, or \<open>None\<close> for NaN, the result of a value that does not coerce.
\<close>

record lib =
  to_datetime :: "string \<Rightarrow> lib_exc + date"
  utcfromtimestamp :: "pyfloat \<Rightarrow> lib_exc + date"
  to_numeric :: "pyval \<Rightarrow> num option"

section \<open>transforms.py\<close>

text \<open>\<open>_extract_list\<close>: the payload itself when it is a list; otherwise, for a mapping,
  the value of the first key of \<open>keys\<close> that is present and holds a list.\<close>

fun first_list :: "(string \<times> pyval) list \<Rightarrow> string list \<Rightarrow> pyval list option" where
  "first_list payload [] = None"
| "first_list payload (key # keys) =
     (case map_of payload key of
        Some (PList items) \<Rightarrow> Some items
      | _ \<Rightarrow> first_list payload keys)"

fun extract_list :: "pyval \<Rightarrow> string list \<Rightarrow> error + pyval list" where
  "extract_list (PList items) keys = Inr items"
| "extract_list (PDict payload) keys =
     (case first_list payload keys of
        Some items \<Rightarrow> Inr items
      | None \<Rightarrow> Inl (DataShapeError (ExpectedListPayload keys)))"
| "extract_list _ keys = Inl (DataShapeError (ExpectedListPayload keys))"

text \<open>\<open>key in item\<close>: a key of a mapping, a substring of a string, an element of a
  list; TypeError on a value that is not a container.\<close>

fun str_contains :: "string \<Rightarrow> string \<Rightarrow> bool" where
  "str_contains key [] = (key = [])"
| "str_contains key (c # cs) = (take (length key) (c # cs) = key \<or> str_contains key cs)"

fun py_contains :: "pyval \<Rightarrow> string \<Rightarrow> error + bool" where
  "py_contains (PDict item) key = Inr (map_of item key \<noteq> None)"
| "py_contains (PStr s) key = Inr (str_contains key s)"
| "py_contains (PList xs) key = Inr (PStr key \<in> set xs)"
| "py_contains _ key = Inl TypeError"

text \<open>\<open>item[key]\<close> with a string key: only a mapping can be indexed so.\<close>

fun py_getitem :: "pyval \<Rightarrow> string \<Rightarrow> error + pyval" where
  "py_getitem (PDict item) key =
     (case map_of item key of Some v \<Rightarrow> Inr v | None \<Rightarrow> Inl KeyError)"
| "py_getitem _ key = Inl TypeError"

text \<open>\<open>_get_required_key\<close>: the loop over \<open>keys\<close>; \<open>all_keys\<close> is the whole list, for
  the message.\<close>

fun probe_keys :: "pyval \<Rightarrow> string list \<Rightarrow> string list \<Rightarrow> error + pyval" where
  "probe_keys item all_keys [] = Inl (DataShapeError (MissingRequiredKeys all_keys item))"
| "probe_keys item all_keys (key # keys) =
     and_then (py_contains item key) (\<lambda>present.
       if present then
         and_then (py_getitem item key) (\<lambda>v.
           if v \<noteq> PNone then Inr v else probe_keys item all_keys keys)
       else probe_keys item all_keys keys)"

definition get_required_key :: "pyval \<Rightarrow> string list \<Rightarrow> error + pyval" where
  "get_required_key item keys = probe_keys item keys keys"

definition raised :: "lib_exc + 'a \<Rightarrow> error + 'a" where
  "raised r = (case r of Inl e \<Rightarrow> Inl (Raised e) | Inr v \<Rightarrow> Inr v)"

text \<open>\<open>_parse_date\<close>. A bool is an int. The result is the date whose \<open>isoformat()\<close> the
  source returns.\<close>

fun parse_date :: "lib \<Rightarrow> pyval \<Rightarrow> error + date" where
  "parse_date l (PDatetime v) = Inr (date_of v)"
| "parse_date l (PBool b) = raised (utcfromtimestamp l (Fin (if b then 1 else 0)))"
| "parse_date l (PInt n) = raised (utcfromtimestamp l (Fin (of_int n)))"
| "parse_date l (PFloat x) = raised (utcfromtimestamp l x)"
| "parse_date l (PStr s) = raised (to_datetime l s)"
| "parse_date l v = Inl (DataShapeError (UnableToParseDate v))"

subsection \<open>The canonical datasets\<close>

record weekly_row =
  week_start_date :: date
  inbound_full_containers :: real

record terminal_row =
  load_type :: string
  tc_bucket :: string
  tc_containers :: num

record outgate_row =
  status :: string
  og_bucket :: string
  og_containers :: num

text \<open>A cell of the optional \<open>terminal\<close> column holds whatever the payload held.\<close>

record berth_row =
  vessel :: string
  time_at_berth_hours :: real
  terminal :: pyval

subsection \<open>The normalizers\<close>

text \<open>\<open>for item in items: rows.append(...)\<close>: the first item that raises ends the
  loop.\<close>

fun collect_rows :: "(pyval \<Rightarrow> error + 'r) \<Rightarrow> pyval list \<Rightarrow> error + 'r list" where
  "collect_rows f [] = Inr []"
| "collect_rows f (item # items) =
     and_then (f item) (\<lambda>row.
       and_then (collect_rows f items) (\<lambda>rows. Inr (row # rows)))"

text \<open>\<open>value.strip()\<close>: only a string has the method. A character of the model is
  a code point below U+0100; these twelve are the ones \<open>str.strip()\<close> removes.\<close>

definition is_space :: "char \<Rightarrow> bool" where
  "is_space c = (c \<in> set [CHR 0x09, CHR 0x0A, CHR 0x0B, CHR 0x0C, CHR 0x0D,
                           CHR 0x1C, CHR 0x1D, CHR 0x1E, CHR 0x1F, CHR '' '',
                           CHR 0x85, CHR 0xA0])"

definition str_strip :: "string \<Rightarrow> string" where
  "str_strip s = rev (dropWhile is_space (rev (dropWhile is_space s)))"

fun strip :: "pyval \<Rightarrow> error + string" where
  "strip (PStr s) = Inr (str_strip s)"
| "strip _ = Inl AttributeError"

text \<open>The dtype of a column: integer when every cell is an integer, float otherwise,
  with the integers among its cells turned into floats.\<close>

definition as_column :: "num list \<Rightarrow> num list" where
  "as_column xs = (if list_all is_int64 xs then xs else map (\<lambda>x. F64 (val x)) xs)"

text \<open>The numeric column after \<open>pd.to_numeric(..., errors="coerce")\<close>, or the message
  when \<open>isna().any()\<close>.\<close>

definition coerce_column :: "lib \<Rightarrow> string \<Rightarrow> pyval list \<Rightarrow> error + num list" where
  "coerce_column l msg column =
     (case those (map (to_numeric l) column) of
        None \<Rightarrow> Inl (DataShapeError (Message msg))
      | Some nums \<Rightarrow> Inr (as_column nums))"

text \<open>The key lists the normalizers probe: per dataset the container keys, then the
  aliases of each required column.\<close>

abbreviation weekly_list_keys :: "string list" where
  "weekly_list_keys \<equiv> [''weeklyVolumesComparison'', ''data'', ''items'']"

abbreviation week_start_keys :: "string list" where
  "week_start_keys \<equiv> [''weekStartDate'', ''week_start_date'', ''week'', ''startDate'', ''date'']"

abbreviation inbound_full_keys :: "string list" where
  "inbound_full_keys \<equiv>
     [''inboundFullContainers'', ''inbound_full_containers'', ''inboundFullTeu'',
      ''inbound_full_teu'', ''inboundFullTEU'']"

abbreviation terminal_list_keys :: "string list" where
  "terminal_list_keys \<equiv> [''ContainersAtTerminalData'', ''data'', ''items'']"

abbreviation load_type_keys :: "string list" where
  "load_type_keys \<equiv> [''loadType'', ''load_type'', ''status'']"

abbreviation bucket_keys :: "string list" where
  "bucket_keys \<equiv> [''bucket'', ''agingBucket'', ''ageBucket'', ''aging_bucket'']"

abbreviation containers_keys :: "string list" where
  "containers_keys \<equiv> [''containers'', ''containerCount'', ''value'', ''count'']"

abbreviation outgate_list_keys :: "string list" where
  "outgate_list_keys \<equiv> [''FetchOutgatedContainerMetricsData'', ''data'', ''items'']"

abbreviation status_keys :: "string list" where
  "status_keys \<equiv> [''status'', ''containerStatus'', ''loadType'']"

abbreviation berth_list_keys :: "string list" where
  "berth_list_keys \<equiv> [''FetchQuickviewDashboardBerthData'', ''vessels'', ''data'', ''items'']"

abbreviation vessel_keys :: "string list" where
  "vessel_keys \<equiv> [''vessel'', ''vesselName'', ''name'']"

abbreviation hours_keys :: "string list" where
  "hours_keys \<equiv> [''timeAtBerthHours'', ''hoursAtBerth'', ''time_at_berth_hours'', ''hours'']"

definition weekly_item :: "lib \<Rightarrow> pyval \<Rightarrow> error + date \<times> pyval" where
  "weekly_item l item =
     and_then (get_required_key item week_start_keys) (\<lambda>v.
     and_then (parse_date l v) (\<lambda>week_start.
     and_then (get_required_key item inbound_full_keys) (\<lambda>inbound_full.
     Inr (week_start, inbound_full))))"

definition parse_weekly_volumes :: "lib \<Rightarrow> pyval \<Rightarrow> error + weekly_row list" where
  "parse_weekly_volumes l payload =
     and_then (extract_list payload weekly_list_keys) (\<lambda>items.
     and_then (collect_rows (weekly_item l) items) (\<lambda>rows.
       if rows = [] then Inl (DataShapeError (Message ''Weekly volume payload returned no rows.''))
       else
         and_then (coerce_column l ''Weekly volume payload contained non-numeric inbound values.''
                     (map snd rows)) (\<lambda>nums.
         Inr (map (\<lambda>(r, n). \<lparr>week_start_date = fst r, inbound_full_containers = val n\<rparr>)
                (zip rows nums)))))"

definition terminal_item :: "pyval \<Rightarrow> error + string \<times> string \<times> pyval" where
  "terminal_item item =
     and_then (and_then (get_required_key item load_type_keys) strip) (\<lambda>load_type.
     and_then (and_then (get_required_key item bucket_keys) strip) (\<lambda>bucket.
     and_then (get_required_key item containers_keys) (\<lambda>containers.
     Inr (load_type, bucket, containers))))"

definition parse_terminal_containers :: "lib \<Rightarrow> pyval \<Rightarrow> error + terminal_row list" where
  "parse_terminal_containers l payload =
     and_then (extract_list payload terminal_list_keys) (\<lambda>items.
     and_then (collect_rows terminal_item items) (\<lambda>rows.
       if rows = [] then Inl (DataShapeError (Message ''Terminal container payload returned no rows.''))
       else
         and_then (coerce_column l ''Terminal container payload contained non-numeric values.''
                     (map (\<lambda>r. snd (snd r)) rows)) (\<lambda>nums.
         Inr (map (\<lambda>(r, n). \<lparr>load_type = fst r, tc_bucket = fst (snd r), tc_containers = n\<rparr>)
                (zip rows nums)))))"

definition outgate_item :: "pyval \<Rightarrow> error + string \<times> string \<times> pyval" where
  "outgate_item item =
     and_then (and_then (get_required_key item status_keys) strip) (\<lambda>status.
     and_then (and_then (get_required_key item bucket_keys) strip) (\<lambda>bucket.
     and_then (get_required_key item containers_keys) (\<lambda>containers.
     Inr (status, bucket, containers))))"

definition parse_outgate_metrics :: "lib \<Rightarrow> pyval \<Rightarrow> error + outgate_row list" where
  "parse_outgate_metrics l payload =
     and_then (extract_list payload outgate_list_keys) (\<lambda>items.
     and_then (collect_rows outgate_item items) (\<lambda>rows.
       if rows = [] then Inl (DataShapeError (Message ''Outgate metrics payload returned no rows.''))
       else
         and_then (coerce_column l ''Outgate metrics payload contained non-numeric values.''
                     (map (\<lambda>r. snd (snd r)) rows)) (\<lambda>nums.
         Inr (map (\<lambda>(r, n). \<lparr>status = fst r, og_bucket = fst (snd r), og_containers = n\<rparr>)
                (zip rows nums)))))"

text \<open>\<open>item.get(key)\<close> and \<open>a or b\<close>, for the optional terminal name.\<close>

fun py_get :: "pyval \<Rightarrow> string \<Rightarrow> error + pyval" where
  "py_get (PDict item) key = Inr (case map_of item key of Some v \<Rightarrow> v | None \<Rightarrow> PNone)"
| "py_get _ key = Inl AttributeError"

fun truthy :: "pyval \<Rightarrow> bool" where
  "truthy PNone = False"
| "truthy (PBool b) = b"
| "truthy (PInt n) = (n \<noteq> 0)"
| "truthy (PFloat x) = (x \<noteq> Fin 0)"
| "truthy (PStr s) = (s \<noteq> [])"
| "truthy (PDatetime v) = True"
| "truthy (PList xs) = (xs \<noteq> [])"
| "truthy (PDict kvs) = (kvs \<noteq> [])"

definition berth_item :: "pyval \<Rightarrow> error + string \<times> pyval \<times> pyval" where
  "berth_item item =
     and_then (and_then (get_required_key item vessel_keys) strip) (\<lambda>vessel.
     and_then (get_required_key item hours_keys) (\<lambda>hours.
     and_then (py_get item ''terminal'') (\<lambda>t.
     and_then (if truthy t then Inr t else py_get item ''terminalName'') (\<lambda>terminal.
     Inr (vessel, hours, terminal)))))"

definition parse_berth_data :: "lib \<Rightarrow> pyval \<Rightarrow> error + berth_row list" where
  "parse_berth_data l payload =
     and_then (extract_list payload berth_list_keys) (\<lambda>items.
     and_then (collect_rows berth_item items) (\<lambda>rows.
       if rows = [] then Inl (DataShapeError (Message ''Berth payload returned no rows.''))
       else
         and_then (coerce_column l ''Berth payload contained non-numeric time values.''
                     (map (\<lambda>r. fst (snd r)) rows)) (\<lambda>nums.
         Inr (map (\<lambda>(r, n). \<lparr>vessel = fst r, time_at_berth_hours = val n,
                             terminal = snd (snd r)\<rparr>)
                (zip rows nums)))))"

section \<open>kpis.py: weekly volume pressure\<close>

record weekly_kpi =
  wk_week_start_date :: date
  wk_inbound_full_containers :: real
  rolling_4w_avg_teu :: real
  volume_pressure_index :: pyfloat
  wk_flag :: string
  wk_extraction_ts_utc :: datetime
  wk_from_date :: "string option"
  wk_to_date :: "string option"

text \<open>\<open>Series.rolling(window=w, min_periods=1).mean()\<close>: one pass over the column
  that keeps the current window, appends the new observation and drops the oldest one
  once \<open>w\<close> are held. The window runs over row positions, so after \<open>sort_values\<close>
  over the rows in date order.\<close>

fun rolling_from :: "nat \<Rightarrow> real list \<Rightarrow> real list \<Rightarrow> real list" where
  "rolling_from w win [] = []"
| "rolling_from w win (x # xs) =
     (let win' = (if length win < w then win else tl win) @ [x]
      in (sum_list win' / real (length win')) # rolling_from w win' xs)"

definition rolling_mean :: "nat \<Rightarrow> real list \<Rightarrow> real list" where
  "rolling_mean w xs = rolling_from w [] xs"

text \<open>\<open>if from_date:\<close> adds the column only for a non-empty string.\<close>

definition tag :: "string option \<Rightarrow> string option" where
  "tag v = (case v of None \<Rightarrow> None | Some s \<Rightarrow> if s = [] then None else Some s)"

text \<open>\<open>df.loc[mask, "flag"] = value\<close>\<close>

definition set_flag_where :: "(weekly_kpi \<Rightarrow> bool) \<Rightarrow> string \<Rightarrow> weekly_kpi list \<Rightarrow> weekly_kpi list" where
  "set_flag_where cond v df = map (\<lambda>r. if cond r then r\<lparr>wk_flag := v\<rparr> else r) df"

text \<open>\<open>build_weekly_volume_pressure\<close>. The dates of the dataset are already calendar
  dates, so \<open>pd.to_datetime\<close> and the final \<open>.dt.date.astype(str)\<close> change nothing
  here. \<open>sort_values\<close> is the stable sort: rows of the same date keep their order (the
  order pandas leaves them in depends on its sorting algorithm).\<close>

definition build_weekly_volume_pressure ::
  "weekly_row list \<Rightarrow> datetime \<Rightarrow> string option \<Rightarrow> string option \<Rightarrow> pyfloat \<Rightarrow> pyfloat
     \<Rightarrow> weekly_kpi list" where
  "build_weekly_volume_pressure weekly_df ts from_date to_date high_threshold low_threshold =
     (let df = sort_key week_start_date weekly_df;
          rolling = rolling_mean 4 (map inbound_full_containers df);
          df = map (\<lambda>(r, avg).
                 \<lparr>wk_week_start_date = week_start_date r,
                  wk_inbound_full_containers = inbound_full_containers r,
                  rolling_4w_avg_teu = avg,
                  volume_pressure_index = fdiv (inbound_full_containers r) avg,
                  wk_flag = ''NORMAL'',
                  wk_extraction_ts_utc = ts,
                  wk_from_date = tag from_date,
                  wk_to_date = tag to_date\<rparr>) (zip df rolling);
          df = set_flag_where (\<lambda>r. fge (volume_pressure_index r) high_threshold) ''HIGH'' df;
          df = set_flag_where (\<lambda>r. fle (volume_pressure_index r) low_threshold) ''LOW'' df
      in df)"

section \<open>kpis.py: terminal congestion and outgate stress\<close>

record terminal_kpi =
  tk_load_type :: string
  tk_total_containers :: real
  congested_containers :: real
  congested_pct :: pyfloat
  tk_flag :: string
  tk_extraction_ts_utc :: datetime
  tk_from_date :: "string option"
  tk_to_date :: "string option"

record outgate_kpi =
  ok_status :: string
  ok_total_containers :: real
  slow_containers :: real
  slow_pct :: pyfloat
  ok_flag :: string
  ok_extraction_ts_utc :: datetime
  ok_from_date :: "string option"
  ok_to_date :: "string option"

text \<open>\<open>str.lower()\<close>, on the ASCII letters. The source only compares the result with
  \<open>"loaded"\<close> and \<open>"empty"\<close>, and no other character lowers to a letter of these
  words.\<close>

definition lower_char :: "char \<Rightarrow> char" where
  "lower_char c =
     (case map_of (zip ''ABCDEFGHIJKLMNOPQRSTUVWXYZ'' ''abcdefghijklmnopqrstuvwxyz'') c of
        Some d \<Rightarrow> d
      | None \<Rightarrow> c)"

definition str_lower :: "string \<Rightarrow> string" where
  "str_lower s = map lower_char s"

text \<open>\<open>df.groupby(key, dropna=False)\<close>, iterated: one group per distinct key, in
  ascending key order (strings compare character by character), each holding its
  rows in their original order.\<close>

definition groupby :: "('r \<Rightarrow> string) \<Rightarrow> 'r list \<Rightarrow> (string \<times> 'r list) list" where
  "groupby key df = map (\<lambda>k. (k, filter (\<lambda>r. key r = k) df)) (sort (remdups (map key df)))"

definition terminal_group ::
  "datetime \<Rightarrow> string option \<Rightarrow> string option \<Rightarrow> string list \<Rightarrow> pyfloat \<Rightarrow> pyfloat
     \<Rightarrow> string \<times> terminal_row list \<Rightarrow> terminal_kpi" where
  "terminal_group ts from_date to_date congested_buckets loaded_high empty_high g =
     (let load_type = fst g; subset = snd g;
          total = series_sum (map tc_containers subset);
          congested = series_sum (map tc_containers
                        (filter (\<lambda>r. tc_bucket r \<in> set congested_buckets) subset));
          congested_pct = (if total \<noteq> 0 then fdiv congested total else Fin 0);
          flag = ''NORMAL'';
          flag = (if str_lower load_type = ''loaded'' \<and> fge congested_pct loaded_high
                  then ''HIGH'' else flag);
          flag = (if str_lower load_type = ''empty'' \<and> fge congested_pct empty_high
                  then ''HIGH'' else flag)
      in \<lparr>tk_load_type = load_type,
          tk_total_containers = total,
          congested_containers = congested,
          congested_pct = congested_pct,
          tk_flag = flag,
          tk_extraction_ts_utc = ts,
          tk_from_date = tag from_date,
          tk_to_date = tag to_date\<rparr>)"

definition build_terminal_congestion ::
  "terminal_row list \<Rightarrow> datetime \<Rightarrow> string option \<Rightarrow> string option \<Rightarrow> string list
     \<Rightarrow> pyfloat \<Rightarrow> pyfloat \<Rightarrow> error + terminal_kpi list" where
  "build_terminal_congestion terminal_df ts from_date to_date congested_buckets loaded_high empty_high =
     (let rows = map (terminal_group ts from_date to_date congested_buckets loaded_high empty_high)
                   (groupby load_type terminal_df)
      in if rows = [] then Inl (ValueError ''Terminal congestion KPI produced no rows.'')
         else Inr rows)"

definition outgate_group ::
  "datetime \<Rightarrow> string option \<Rightarrow> string option \<Rightarrow> string list \<Rightarrow> pyfloat
     \<Rightarrow> string \<times> outgate_row list \<Rightarrow> outgate_kpi" where
  "outgate_group ts from_date to_date slow_buckets slow_high g =
     (let status = fst g; subset = snd g;
          total = series_sum (map og_containers subset);
          slow = series_sum (map og_containers
                   (filter (\<lambda>r. og_bucket r \<in> set slow_buckets) subset));
          slow_pct = (if total \<noteq> 0 then fdiv slow total else Fin 0);
          flag = (if fge slow_pct slow_high then ''HIGH'' else ''NORMAL'')
      in \<lparr>ok_status = status,
          ok_total_containers = total,
          slow_containers = slow,
          slow_pct = slow_pct,
          ok_flag = flag,
          ok_extraction_ts_utc = ts,
          ok_from_date = tag from_date,
          ok_to_date = tag to_date\<rparr>)"

definition build_outgate_stress_by_status ::
  "outgate_row list \<Rightarrow> datetime \<Rightarrow> string option \<Rightarrow> string option \<Rightarrow> string list
     \<Rightarrow> pyfloat \<Rightarrow> error + outgate_kpi list" where
  "build_outgate_stress_by_status outgate_df ts from_date to_date slow_buckets slow_high =
     (let rows = map (outgate_group ts from_date to_date slow_buckets slow_high)
                   (groupby status outgate_df)
      in if rows = [] then Inl (ValueError ''Outgate stress KPI produced no rows.'')
         else Inr rows)"

section \<open>kpis.py: berth snapshot and health summary\<close>

record berth_kpi =
  record_type :: string
  bk_vessel :: "string option"
  bk_terminal :: pyval
  bk_time_at_berth_hours :: "real option"
  avg_time_at_berth_hours :: pyfloat
  bk_flag :: string
  bk_extraction_ts_utc :: datetime
  bk_from_date :: "string option"
  bk_to_date :: "string option"

record health_row =
  volume_pressure_flag :: string
  terminal_congestion_loaded_flag :: string
  terminal_congestion_empty_flag :: string
  outgate_stress_high_statuses :: string
  berth_flag :: string
  hs_extraction_ts_utc :: datetime

text \<open>\<open>Series.mean()\<close>: NaN on an empty column. The mean of an integer column is
  accumulated in floats, so it does not wrap.\<close>

definition series_mean :: "real list \<Rightarrow> pyfloat" where
  "series_mean xs = (if xs = [] then NaN else Fin (sum_list xs / real (length xs)))"

text \<open>\<open>DataFrame.head(n)\<close>: the first \<open>n\<close> rows, or all but the last \<open>-n\<close> for a
  negative \<open>n\<close>.\<close>

definition head_rows :: "int \<Rightarrow> 'a list \<Rightarrow> 'a list" where
  "head_rows n df = (if 0 \<le> n then take (nat n) df else take (length df - nat (- n)) df)"

text \<open>\<open>build_berth_snapshot\<close>. The descending \<open>sort_values\<close> is the stable sort:
  vessels of the same time keep their order (the order pandas leaves them in depends
  on its sorting algorithm).\<close>

definition build_berth_snapshot ::
  "berth_row list \<Rightarrow> datetime \<Rightarrow> string option \<Rightarrow> string option \<Rightarrow> pyfloat \<Rightarrow> int
     \<Rightarrow> berth_kpi list" where
  "build_berth_snapshot berth_df ts from_date to_date berth_high_hours top_n =
     (let avg_time = series_mean (map time_at_berth_hours berth_df);
          flag = (if fge avg_time berth_high_hours then ''HIGH'' else ''NORMAL'');
          summary =
            [\<lparr>record_type = ''summary'',
              bk_vessel = None,
              bk_terminal = PNone,
              bk_time_at_berth_hours = None,
              avg_time_at_berth_hours = avg_time,
              bk_flag = flag,
              bk_extraction_ts_utc = ts,
              bk_from_date = tag from_date,
              bk_to_date = tag to_date\<rparr>];
          vessels =
            map (\<lambda>r.
                \<lparr>record_type = ''vessel'',
                 bk_vessel = Some (vessel r),
                 bk_terminal = terminal r,
                 bk_time_at_berth_hours = Some (time_at_berth_hours r),
                 avg_time_at_berth_hours = avg_time,
                 bk_flag = flag,
                 bk_extraction_ts_utc = ts,
                 bk_from_date = tag from_date,
                 bk_to_date = tag to_date\<rparr>)
              (head_rows top_n (sort_key (\<lambda>r. - time_at_berth_hours r) berth_df))
      in summary @ vessels)"

definition flag_for_load_type :: "terminal_kpi list \<Rightarrow> string \<Rightarrow> string" where
  "flag_for_load_type df lt =
     (case filter (\<lambda>r. str_lower (tk_load_type r) = lt) df of
        [] \<Rightarrow> ''UNKNOWN''
      | r # _ \<Rightarrow> tk_flag r)"

text \<open>\<open>sep.join(xs)\<close>\<close>

fun str_join :: "string \<Rightarrow> string list \<Rightarrow> string" where
  "str_join sep [] = []"
| "str_join sep [x] = x"
| "str_join sep (x # y # ys) = x @ sep @ str_join sep (y # ys)"

text \<open>\<open>build_health_summary\<close>. \<open>iloc[-1]\<close> on an empty table and \<open>iloc[0]\<close> on an
  empty selection raise IndexError. The volume table is sorted on the ISO strings of
  its dates, which is the order of the dates.\<close>

definition build_health_summary ::
  "weekly_kpi list \<Rightarrow> terminal_kpi list \<Rightarrow> outgate_kpi list \<Rightarrow> berth_kpi list \<Rightarrow> datetime
     \<Rightarrow> error + health_row list" where
  "build_health_summary volume_df terminal_df outgate_df berth_df ts =
     (case sort_key wk_week_start_date volume_df of
        [] \<Rightarrow> Inl IndexError
      | v # vs \<Rightarrow>
          (let latest_volume = last (v # vs);
               loaded_flag = flag_for_load_type terminal_df ''loaded'';
               empty_flag = flag_for_load_type terminal_df ''empty'';
               high_statuses = map ok_status (filter (\<lambda>r. ok_flag r = ''HIGH'') outgate_df)
           in case filter (\<lambda>r. record_type r = ''summary'') berth_df of
                [] \<Rightarrow> Inl IndexError
              | b # _ \<Rightarrow>
                  Inr [\<lparr>volume_pressure_flag = wk_flag latest_volume,
                        terminal_congestion_loaded_flag = loaded_flag,
                        terminal_congestion_empty_flag = empty_flag,
                        outgate_stress_high_statuses =
                          (if high_statuses \<noteq> [] then str_join '', '' high_statuses
                           else ''NONE''),
                        berth_flag = bk_flag b,
                        hs_extraction_ts_utc = ts\<rparr>]))"

section \<open>main.py\<close>

text \<open>The settings the KPI stage reads.\<close>

record settings =
  from_date :: "string option"
  to_date :: "string option"
  congested_buckets :: "string list"
  slow_outgate_buckets :: "string list"
  volume_pressure_high :: pyfloat
  volume_pressure_low :: pyfloat
  terminal_loaded_high :: pyfloat
  terminal_empty_high :: pyfloat
  outgate_slow_high :: pyfloat
  berth_high_hours :: pyfloat
  berth_top_n :: int

text \<open>A table as it is handed to \<open>write_tables\<close>: every row lists its columns by name.
  A column that was never assigned is absent from every row.\<close>

datatype cell =
    CStr string
  | CNum pyfloat
  | CDate date
  | CTimestamp datetime
  | CVal pyval
  | CNull

type_synonym frame = "(string \<times> cell) list list"

definition opt_col :: "string \<Rightarrow> string option \<Rightarrow> (string \<times> cell) list" where
  "opt_col name v = (case v of None \<Rightarrow> [] | Some s \<Rightarrow> [(name, CStr s)])"

definition opt_cell :: "('a \<Rightarrow> cell) \<Rightarrow> 'a option \<Rightarrow> cell" where
  "opt_cell f v = (case v of None \<Rightarrow> CNull | Some x \<Rightarrow> f x)"

definition weekly_columns :: "weekly_kpi \<Rightarrow> (string \<times> cell) list" where
  "weekly_columns r =
     [(''week_start_date'', CDate (wk_week_start_date r)),
      (''inbound_full_containers'', CNum (Fin (wk_inbound_full_containers r))),
      (''rolling_4w_avg_teu'', CNum (Fin (rolling_4w_avg_teu r))),
      (''volume_pressure_index'', CNum (volume_pressure_index r)),
      (''flag'', CStr (wk_flag r)),
      (''extraction_ts_utc'', CTimestamp (wk_extraction_ts_utc r))]
     @ opt_col ''from_date'' (wk_from_date r) @ opt_col ''to_date'' (wk_to_date r)"

definition terminal_columns :: "terminal_kpi \<Rightarrow> (string \<times> cell) list" where
  "terminal_columns r =
     [(''load_type'', CStr (tk_load_type r)),
      (''total_containers'', CNum (Fin (tk_total_containers r))),
      (''congested_containers'', CNum (Fin (congested_containers r))),
      (''congested_pct'', CNum (congested_pct r)),
      (''flag'', CStr (tk_flag r)),
      (''extraction_ts_utc'', CTimestamp (tk_extraction_ts_utc r))]
     @ opt_col ''from_date'' (tk_from_date r) @ opt_col ''to_date'' (tk_to_date r)"

definition outgate_columns :: "outgate_kpi \<Rightarrow> (string \<times> cell) list" where
  "outgate_columns r =
     [(''status'', CStr (ok_status r)),
      (''total_containers'', CNum (Fin (ok_total_containers r))),
      (''slow_containers'', CNum (Fin (slow_containers r))),
      (''slow_pct'', CNum (slow_pct r)),
      (''flag'', CStr (ok_flag r)),
      (''extraction_ts_utc'', CTimestamp (ok_extraction_ts_utc r))]
     @ opt_col ''from_date'' (ok_from_date r) @ opt_col ''to_date'' (ok_to_date r)"

definition berth_columns :: "berth_kpi \<Rightarrow> (string \<times> cell) list" where
  "berth_columns r =
     [(''record_type'', CStr (record_type r)),
      (''vessel'', opt_cell CStr (bk_vessel r)),
      (''terminal'', CVal (bk_terminal r)),
      (''time_at_berth_hours'', opt_cell (\<lambda>x. CNum (Fin x)) (bk_time_at_berth_hours r)),
      (''avg_time_at_berth_hours'', CNum (avg_time_at_berth_hours r)),
      (''flag'', CStr (bk_flag r)),
      (''extraction_ts_utc'', CTimestamp (bk_extraction_ts_utc r))]
     @ opt_col ''from_date'' (bk_from_date r) @ opt_col ''to_date'' (bk_to_date r)"

definition health_columns :: "health_row \<Rightarrow> (string \<times> cell) list" where
  "health_columns r =
     [(''volume_pressure_flag'', CStr (volume_pressure_flag r)),
      (''terminal_congestion_loaded_flag'', CStr (terminal_congestion_loaded_flag r)),
      (''terminal_congestion_empty_flag'', CStr (terminal_congestion_empty_flag r)),
      (''outgate_stress_high_statuses'', CStr (outgate_stress_high_statuses r)),
      (''berth_flag'', CStr (berth_flag r)),
      (''extraction_ts_utc'', CTimestamp (hs_extraction_ts_utc r))]"

text \<open>\<open>run_pipeline\<close> from the four fetched payloads to the tables it writes. The
  settings, the clock and the fetches are its inputs here.\<close>

definition run_pipeline ::
  "lib \<Rightarrow> settings \<Rightarrow> datetime \<Rightarrow> pyval \<Rightarrow> pyval \<Rightarrow> pyval \<Rightarrow> pyval
     \<Rightarrow> error + (string \<times> frame) list" where
  "run_pipeline l cfg extraction_ts_utc weekly_payload terminal_payload outgate_payload
       berth_payload =
     and_then (parse_weekly_volumes l weekly_payload) (\<lambda>weekly_df.
     and_then (parse_terminal_containers l terminal_payload) (\<lambda>terminal_df.
     and_then (parse_outgate_metrics l outgate_payload) (\<lambda>outgate_df.
     and_then (parse_berth_data l berth_payload) (\<lambda>berth_df.
     let kpi_weekly = build_weekly_volume_pressure weekly_df extraction_ts_utc
           (from_date cfg) (to_date cfg) (volume_pressure_high cfg) (volume_pressure_low cfg)
     in
     and_then (build_terminal_congestion terminal_df extraction_ts_utc
           (from_date cfg) (to_date cfg) (congested_buckets cfg)
           (terminal_loaded_high cfg) (terminal_empty_high cfg)) (\<lambda>kpi_terminal.
     and_then (build_outgate_stress_by_status outgate_df extraction_ts_utc
           (from_date cfg) (to_date cfg) (slow_outgate_buckets cfg) (outgate_slow_high cfg))
       (\<lambda>kpi_outgate.
     let kpi_berth = build_berth_snapshot berth_df extraction_ts_utc
           (from_date cfg) (to_date cfg) (berth_high_hours cfg) (berth_top_n cfg)
     in
     and_then (build_health_summary kpi_weekly kpi_terminal kpi_outgate kpi_berth
           extraction_ts_utc) (\<lambda>kpi_health.
     Inr [(''kpi_weekly_volume_pressure'', map weekly_columns kpi_weekly),
          (''kpi_terminal_congestion'', map terminal_columns kpi_terminal),
          (''kpi_outgate_stress_by_status'', map outgate_columns kpi_outgate),
          (''kpi_berth_snapshot'', map berth_columns kpi_berth),
          (''kpi_health_summary'', map health_columns kpi_health)])))))))"

section \<open>Sample inputs\<close>

definition sample_ts :: datetime where
  "sample_ts = Datetime (2024, 2, 1) 0"

definition two_weeks :: "weekly_row list" where
  "two_weeks =
     [\<lparr>week_start_date = (2024, 1, 1), inbound_full_containers = 100\<rparr>,
      \<lparr>week_start_date = (2024, 1, 8), inbound_full_containers = 140\<rparr>]"

definition five_weeks :: "weekly_row list" where
  "five_weeks =
     [\<lparr>week_start_date = (2024, 1, 29), inbound_full_containers = 50\<rparr>,
      \<lparr>week_start_date = (2024, 1, 1), inbound_full_containers = 10\<rparr>,
      \<lparr>week_start_date = (2024, 1, 15), inbound_full_containers = 30\<rparr>,
      \<lparr>week_start_date = (2024, 1, 8), inbound_full_containers = 20\<rparr>,
      \<lparr>week_start_date = (2024, 1, 22), inbound_full_containers = 40\<rparr>]"

definition idle_weeks :: "weekly_row list" where
  "idle_weeks =
     [\<lparr>week_start_date = (2024, 1, 1), inbound_full_containers = 70\<rparr>,
      \<lparr>week_start_date = (2024, 1, 8), inbound_full_containers = 0\<rparr>,
      \<lparr>week_start_date = (2024, 1, 15), inbound_full_containers = 0\<rparr>,
      \<lparr>week_start_date = (2024, 1, 22), inbound_full_containers = 0\<rparr>,
      \<lparr>week_start_date = (2024, 1, 29), inbound_full_containers = 0\<rparr>]"

text \<open>The defaults of \<open>Settings.from_env\<close>, with no reporting date range.\<close>

definition default_settings :: settings where
  "default_settings =
     \<lparr>from_date = None,
      to_date = None,
      congested_buckets = [''9-12 Days'', ''13+ Days''],
      slow_outgate_buckets = [''5-8 Days'', ''9-12 Days'', ''13+ Days''],
      volume_pressure_high = Fin (115 / 100),
      volume_pressure_low = Fin (90 / 100),
      terminal_loaded_high = Fin (25 / 100),
      terminal_empty_high = Fin (50 / 100),
      outgate_slow_high = Fin (40 / 100),
      berth_high_hours = Fin 24,
      berth_top_n = 5\<rparr>"

definition yard :: "terminal_row list" where
  "yard =
     [\<lparr>load_type = ''Loaded'', tc_bucket = ''13+ Days'', tc_containers = I64 30\<rparr>,
      \<lparr>load_type = ''Reefer'', tc_bucket = ''13+ Days'', tc_containers = I64 8\<rparr>,
      \<lparr>load_type = ''EMPTY'', tc_bucket = ''9-12 Days'', tc_containers = I64 0\<rparr>,
      \<lparr>load_type = ''Loaded'', tc_bucket = ''0-4 Days'', tc_containers = I64 70\<rparr>]"

text \<open>A yard whose load types are spelled in several cases.\<close>

definition mixed_yard :: "terminal_row list" where
  "mixed_yard =
     [\<lparr>load_type = ''LOADED'', tc_bucket = ''13+ Days'', tc_containers = I64 3\<rparr>,
      \<lparr>load_type = ''LOADED'', tc_bucket = ''0-4 Days'', tc_containers = I64 7\<rparr>,
      \<lparr>load_type = ''Empty'', tc_bucket = ''13+ Days'', tc_containers = I64 3\<rparr>,
      \<lparr>load_type = ''Empty'', tc_bucket = ''0-4 Days'', tc_containers = I64 7\<rparr>,
      \<lparr>load_type = ''eMpTy'', tc_bucket = ''9-12 Days'', tc_containers = I64 6\<rparr>,
      \<lparr>load_type = ''eMpTy'', tc_bucket = ''0-4 Days'', tc_containers = I64 4\<rparr>,
      \<lparr>load_type = ''Reefer'', tc_bucket = ''13+ Days'', tc_containers = I64 8\<rparr>,
      \<lparr>load_type = ''loaded'', tc_bucket = ''0-4 Days'', tc_containers = I64 10\<rparr>]"

definition gate :: "outgate_row list" where
  "gate =
     [\<lparr>status = ''Transship'', og_bucket = ''13+ Days'', og_containers = I64 5\<rparr>,
      \<lparr>status = ''Import'', og_bucket = ''5-8 Days'', og_containers = I64 0\<rparr>,
      \<lparr>status = ''Export'', og_bucket = ''5-8 Days'', og_containers = I64 6\<rparr>,
      \<lparr>status = ''Export'', og_bucket = ''0-4 Days'', og_containers = I64 4\<rparr>]"

definition docks :: "berth_row list" where
  "docks =
     [\<lparr>vessel = ''Aurora'', time_at_berth_hours = 30, terminal = PNone\<rparr>,
      \<lparr>vessel = ''Borealis'', time_at_berth_hours = 40, terminal = PStr ''T1''\<rparr>]"

text \<open>The four KPI tables of the samples, under the default thresholds.\<close>

definition volume_kpi :: "weekly_kpi list" where
  "volume_kpi =
     build_weekly_volume_pressure two_weeks sample_ts None None (Fin (115 / 100)) (Fin (90 / 100))"

definition yard_kpi :: "terminal_kpi list" where
  "yard_kpi =
     map (terminal_group sample_ts None None [''9-12 Days'', ''13+ Days'']
            (Fin (25 / 100)) (Fin (50 / 100)))
       (groupby load_type yard)"

definition gate_kpi :: "outgate_kpi list" where
  "gate_kpi =
     map (outgate_group sample_ts None None [''5-8 Days'', ''9-12 Days'', ''13+ Days'']
            (Fin (40 / 100)))
       (groupby status gate)"

definition docks_kpi :: "berth_kpi list" where
  "docks_kpi = build_berth_snapshot docks sample_ts None None (Fin 24) 5"

text \<open>A stand-in for the libraries: it parses two ISO dates and the epoch, and coerces
  integers and finite floats.\<close>

definition sample_lib :: lib where
  "sample_lib =
     \<lparr>to_datetime = (\<lambda>s. if s = ''2024-01-01'' then Inr (2024, 1, 1)
                          else if s = ''2024-01-08'' then Inr (2024, 1, 8)
                          else Inl (LibExc ''DateParseError'')),
      utcfromtimestamp = (\<lambda>x. if x = Fin 0 then Inr (1970, 1, 1)
                               else Inl (LibExc ''OverflowError'')),
      to_numeric = (\<lambda>v. case v of PInt n \<Rightarrow> Some (I64 n)
                                   | PFloat (Fin x) \<Rightarrow> Some (F64 x)
                                   | _ \<Rightarrow> None)\<rparr>"

definition week_items :: "pyval list" where
  "week_items =
     [PDict [(''weekStartDate'', PStr ''2024-01-01''), (''inboundFullContainers'', PInt 100)],
      PDict [(''week'', PStr ''2024-01-08''), (''inbound_full_teu'', PInt 140)]]"

definition yard_items :: "pyval list" where
  "yard_items =
     [PDict [(''loadType'', PStr '' Loaded''), (''bucket'', PStr ''13+ Days''), (''count'', PInt 30)],
      PDict [(''loadType'', PStr ''Loaded''), (''bucket'', PStr ''0-4 Days''),
             (''containers'', PNone), (''value'', PInt 70)]]"

definition gate_items :: "pyval list" where
  "gate_items =
     [PDict [(''status'', PStr ''Export''), (''agingBucket'', PStr ''5-8 Days''),
             (''containers'', PInt 6)]]"

definition dock_items :: "pyval list" where
  "dock_items =
     [PDict [(''vesselName'', PStr ''Aurora ''), (''hours'', PInt 30),
             (''terminalName'', PStr ''T1'')]]"

text \<open>An item with a load type and a bucket but no container count under any alias.\<close>

definition uncounted :: "(string \<times> pyval) list" where
  "uncounted =
     [(''loadType'', PStr ''Empty''), (''bucket'', PStr ''0-4 Days''), (''containers'', PNone)]"

text \<open>The default settings with a reporting date range.\<close>

definition january_settings :: settings where
  "january_settings =
     default_settings\<lparr>from_date := Some ''2024-01-01'', to_date := Some ''2024-01-31''\<rparr>"

section \<open>Predicates of the statements\<close>

text \<open>Two strings are equal up to the case of their ASCII letters.\<close>

definition same_letter :: "char \<Rightarrow> char \<Rightarrow> bool" where
  "same_letter c d =
     (c = d
      \<or> (c, d) \<in> set (zip ''ABCDEFGHIJKLMNOPQRSTUVWXYZ'' ''abcdefghijklmnopqrstuvwxyz'')
      \<or> (d, c) \<in> set (zip ''ABCDEFGHIJKLMNOPQRSTUVWXYZ'' ''abcdefghijklmnopqrstuvwxyz''))"

definition ci_eq :: "string \<Rightarrow> string \<Rightarrow> bool" where
  "ci_eq s t = list_all2 same_letter s t"

text \<open>None of \<open>keys\<close> is present in the item with a non-null value.\<close>

definition missing :: "(string \<times> pyval) list \<Rightarrow> string list \<Rightarrow> bool" where
  "missing item keys = list_all (\<lambda>k. map_of item k = None \<or> map_of item k = Some PNone) keys"

section \<open>Weekly volume pressure: the rolling mean and the flags\<close>

lemma length_rolling_from: "length (rolling_from w win xs) = length xs"
  by (induction xs arbitrary: win) (simp_all add: Let_def)

text \<open>The one-pass window computes, at position \<open>i\<close>, the mean of the last \<open>w\<close>
  observations seen so far (fewer at the start).\<close>

lemma rolling_from_nth:
  assumes "0 < w" "length win \<le> w" "i < length xs"
  shows "rolling_from w win xs ! i =
           sum_list (drop (length win + Suc i - w) (win @ take (Suc i) xs))
             / real (min (length win + Suc i) w)"
  using assms
proof (induction xs arbitrary: win i)
  case Nil
  then show ?case by simp
next
  case (Cons x xs)
  let ?win' = "(if length win < w then win else tl win) @ [x]"
  have len': "length ?win' \<le> w" using Cons.prems by (cases win) auto
  show ?case
  proof (cases i)
    case 0
    show ?thesis
    proof (cases "length win < w")
      case True
      then show ?thesis using 0 by (simp add: Let_def min_def)
    next
      case False
      then have lw: "length win = w" using Cons.prems by simp
      then obtain a ws where win: "win = a # ws" using Cons.prems by (cases win) auto
      show ?thesis using 0 lw win by (simp add: Let_def)
    qed
  next
    case (Suc j)
    then have j: "j < length xs" using Cons.prems by simp
    have IH: "rolling_from w ?win' xs ! j =
           sum_list (drop (length ?win' + Suc j - w) (?win' @ take (Suc j) xs))
             / real (min (length ?win' + Suc j) w)"
      using Cons.IH[OF Cons.prems(1) len' j] .
    show ?thesis
    proof (cases "length win < w")
      case True
      then show ?thesis using IH Suc by (simp add: Let_def)
    next
      case False
      then have lw: "length win = w" using Cons.prems by simp
      then obtain a ws where win: "win = a # ws" using Cons.prems by (cases win) auto
      have w: "w = Suc (length ws)" using lw win by simp
      have "rolling_from w win (x # xs) ! i = rolling_from w (ws @ [x]) xs ! j"
        using Suc False win by (simp add: Let_def)
      also have "\<dots> = sum_list (drop (Suc j) ((ws @ [x]) @ take (Suc j) xs)) / real w"
        using IH False win by (simp add: w)
      also have "drop (Suc j) ((ws @ [x]) @ take (Suc j) xs)
                   = drop (length win + Suc i - w) (win @ take (Suc i) (x # xs))"
        by (simp add: w win Suc)
      finally show ?thesis by (simp add: w win)
    qed
  qed
qed

lemma rolling_mean_nth:
  assumes "i < length xs"
  shows "rolling_mean 4 xs ! i = sum_list (drop (i - 3) (take (Suc i) xs)) / real (min (Suc i) 4)"
proof -
  have "Suc i - 4 = i - 3" by simp
  then show ?thesis
    using rolling_from_nth[of 4 "[]" i xs] assms by (simp add: rolling_mean_def)
qed


lemma sum_list_map_zero:
  "\<forall>x \<in> set xs. f x = (0::real) \<Longrightarrow> sum_list (map f xs) = 0"
  by (induction xs) auto

lemma length_rolling_mean: "length (rolling_mean w xs) = length xs"
  by (simp add: rolling_mean_def length_rolling_from)

lemma set_flag_where_nth:
  "i < length df \<Longrightarrow>
   set_flag_where c v df ! i = (if c (df ! i) then (df ! i)\<lparr>wk_flag := v\<rparr> else df ! i)"
  by (simp add: set_flag_where_def)

lemma length_set_flag_where: "length (set_flag_where c v df) = length df"
  by (simp add: set_flag_where_def)

lemma length_build_weekly:
  "length (build_weekly_volume_pressure weekly_df ts fd td hi lo) = length weekly_df"
  by (simp add: build_weekly_volume_pressure_def Let_def length_set_flag_where
      length_rolling_mean)

lemma build_weekly_nth:
  assumes "i < length weekly_df"
  shows "build_weekly_volume_pressure weekly_df ts fd td hi lo ! i =
     (let r = sort_key week_start_date weekly_df ! i;
          avg = rolling_mean 4 (map inbound_full_containers (sort_key week_start_date weekly_df)) ! i;
          vpi = fdiv (inbound_full_containers r) avg
      in \<lparr>wk_week_start_date = week_start_date r,
          wk_inbound_full_containers = inbound_full_containers r,
          rolling_4w_avg_teu = avg,
          volume_pressure_index = vpi,
          wk_flag = (if fle vpi lo then ''LOW'' else if fge vpi hi then ''HIGH'' else ''NORMAL''),
          wk_extraction_ts_utc = ts,
          wk_from_date = tag fd,
          wk_to_date = tag td\<rparr>)"
  using assms
  by (simp add: build_weekly_volume_pressure_def Let_def set_flag_where_nth
      length_set_flag_where length_rolling_mean)

lemma build_weekly_flag_nth:
  assumes "i < length weekly_df"
  shows "wk_flag (build_weekly_volume_pressure weekly_df ts fd td hi lo ! i) =
     (if fle (volume_pressure_index (build_weekly_volume_pressure weekly_df ts fd td hi lo ! i)) lo
      then ''LOW''
      else if fge (volume_pressure_index (build_weekly_volume_pressure weekly_df ts fd td hi lo ! i)) hi
      then ''HIGH'' else ''NORMAL'')"
  using assms by (simp add: build_weekly_nth Let_def)

lemma build_weekly_dates:
  "map wk_week_start_date (build_weekly_volume_pressure weekly_df ts fd td hi lo)
     = map week_start_date (sort_key week_start_date weekly_df)"
  by (rule nth_equalityI) (simp_all add: length_build_weekly build_weekly_nth Let_def)

lemma build_weekly_inbound:
  "map wk_inbound_full_containers (build_weekly_volume_pressure weekly_df ts fd td hi lo)
     = map inbound_full_containers (sort_key week_start_date weekly_df)"
  by (rule nth_equalityI) (simp_all add: length_build_weekly build_weekly_nth Let_def)

lemma build_weekly_rolling:
  assumes "i < length weekly_df"
  shows "rolling_4w_avg_teu (build_weekly_volume_pressure weekly_df ts fd td hi lo ! i) =
     sum_list (map wk_inbound_full_containers
         (drop (i - 3) (take (Suc i) (build_weekly_volume_pressure weekly_df ts fd td hi lo))))
       / real (min (Suc i) 4)"
proof -
  let ?df = "sort_key week_start_date weekly_df"
  have "rolling_4w_avg_teu (build_weekly_volume_pressure weekly_df ts fd td hi lo ! i)
      = rolling_mean 4 (map inbound_full_containers ?df) ! i"
    using assms by (simp add: build_weekly_nth Let_def)
  also have "\<dots> = sum_list (drop (i - 3) (take (Suc i) (map inbound_full_containers ?df)))
       / real (min (Suc i) 4)"
    using assms by (simp add: rolling_mean_nth)
  also have "drop (i - 3) (take (Suc i) (map inbound_full_containers ?df))
      = map wk_inbound_full_containers
         (drop (i - 3) (take (Suc i) (build_weekly_volume_pressure weekly_df ts fd td hi lo)))"
    by (simp only: drop_map[symmetric] take_map[symmetric] build_weekly_inbound)
  finally show ?thesis .
qed

text \<open>
  C1. For every weekly dataset and every pair of thresholds, the flag of every row of
  the result is decided by the two overwrites in their order: LOW where the index is
  \<open>\<le> low_threshold\<close>, otherwise HIGH where it is \<open>\<ge> high_threshold\<close>, otherwise the
  initial NORMAL. A row whose index meets both conditions ends LOW.
\<close>

theorem C1_flag_two_pass:
  assumes "r \<in> set (build_weekly_volume_pressure weekly_df ts fd td high_threshold low_threshold)"
  shows "wk_flag r =
           (if fle (volume_pressure_index r) low_threshold then ''LOW''
            else if fge (volume_pressure_index r) high_threshold then ''HIGH''
            else ''NORMAL'')
       \<and> (fge (volume_pressure_index r) high_threshold
            \<and> fle (volume_pressure_index r) low_threshold \<longrightarrow> wk_flag r = ''LOW'')"
proof -
  from assms obtain i where i: "i < length weekly_df"
    and r: "r = build_weekly_volume_pressure weekly_df ts fd td high_threshold low_threshold ! i"
    by (auto simp: in_set_conv_nth length_build_weekly)
  have "wk_flag r =
           (if fle (volume_pressure_index r) low_threshold then ''LOW''
            else if fge (volume_pressure_index r) high_threshold then ''HIGH''
            else ''NORMAL'')"
    unfolding r using i by (rule build_weekly_flag_nth)
  then show ?thesis by simp
qed

text \<open>With high = 0.5 and low = 2 the second week (index 140 / 120) meets both
  conditions and is flagged LOW.\<close>

theorem C1_flag_two_pass_witness:
  "build_weekly_volume_pressure two_weeks sample_ts None None (Fin (1 / 2)) (Fin 2) ! 1
     \<in> set (build_weekly_volume_pressure two_weeks sample_ts None None (Fin (1 / 2)) (Fin 2))
   \<and> fge (volume_pressure_index
        (build_weekly_volume_pressure two_weeks sample_ts None None (Fin (1 / 2)) (Fin 2) ! 1))
        (Fin (1 / 2))
   \<and> fle (volume_pressure_index
        (build_weekly_volume_pressure two_weeks sample_ts None None (Fin (1 / 2)) (Fin 2) ! 1))
        (Fin 2)
   \<and> wk_flag
        (build_weekly_volume_pressure two_weeks sample_ts None None (Fin (1 / 2)) (Fin 2) ! 1)
       = ''LOW''"
proof -
  let ?out = "build_weekly_volume_pressure two_weeks sample_ts None None (Fin (1 / 2)) (Fin 2)"
  have m: "?out ! 1 \<in> set ?out"
    by (simp add: length_build_weekly two_weeks_def)
  have v: "volume_pressure_index (?out ! 1) = Fin (7 / 6)"
    by (simp add: build_weekly_nth two_weeks_def rolling_mean_def fdiv_def)
  have hi: "fge (volume_pressure_index (?out ! 1)) (Fin (1 / 2))"
    unfolding v by (simp add: fge_def)
  have lo: "fle (volume_pressure_index (?out ! 1)) (Fin 2)"
    unfolding v by simp
  have "wk_flag (?out ! 1) = ''LOW''"
    using C1_flag_two_pass [OF m] hi lo by blast
  then show ?thesis using m hi lo by blast
qed

text \<open>
  C3. For every weekly dataset, the result holds the input rows in ascending order of
  \<open>week_start_date\<close>, and the rolling average of the row at position \<open>i\<close> is the mean of
  the inbound values at positions \<open>i - 3, ..., i\<close> (from position 0 when \<open>i < 3\<close>), so
  over \<open>min (i + 1) 4\<close> rows. The first row's rolling average is its own inbound value.
\<close>

theorem C3_sorted_rolling:
  fixes weekly_df ts fd td hi lo
  defines "out \<equiv> build_weekly_volume_pressure weekly_df ts fd td hi lo"
  shows "sorted (map wk_week_start_date out)
       \<and> mset (map (\<lambda>r. (wk_week_start_date r, wk_inbound_full_containers r)) out)
           = mset (map (\<lambda>r. (week_start_date r, inbound_full_containers r)) weekly_df)
       \<and> (\<forall>i < length out. rolling_4w_avg_teu (out ! i) =
             sum_list (map wk_inbound_full_containers (drop (i - 3) (take (Suc i) out)))
               / real (min (Suc i) 4))
       \<and> (weekly_df \<noteq> [] \<longrightarrow>
             rolling_4w_avg_teu (hd out) = wk_inbound_full_containers (hd out))"
proof -
  let ?df = "sort_key week_start_date weekly_df"
  have 1: "sorted (map wk_week_start_date out)"
    unfolding out_def by (simp add: build_weekly_dates)
  have "map (\<lambda>r. (wk_week_start_date r, wk_inbound_full_containers r)) out
          = map (\<lambda>r. (week_start_date r, inbound_full_containers r)) ?df"
    unfolding out_def
    by (rule nth_equalityI) (simp_all add: length_build_weekly build_weekly_nth Let_def)
  then have 2: "mset (map (\<lambda>r. (wk_week_start_date r, wk_inbound_full_containers r)) out)
           = mset (map (\<lambda>r. (week_start_date r, inbound_full_containers r)) weekly_df)"
    by simp
  have 3: "\<forall>i < length out. rolling_4w_avg_teu (out ! i) =
           sum_list (map wk_inbound_full_containers (drop (i - 3) (take (Suc i) out)))
             / real (min (Suc i) 4)"
    unfolding out_def using build_weekly_rolling by (simp add: length_build_weekly)
  have 4: "weekly_df \<noteq> [] \<longrightarrow>
             rolling_4w_avg_teu (hd out) = wk_inbound_full_containers (hd out)"
  proof
    assume ne: "weekly_df \<noteq> []"
    then have len: "0 < length out" unfolding out_def by (simp add: length_build_weekly)
    then obtain a as where out: "out = a # as" by (cases out) auto
    from 3 len have "rolling_4w_avg_teu (out ! 0) =
           sum_list (map wk_inbound_full_containers (drop (0 - 3) (take (Suc 0) out)))
             / real (min (Suc 0) 4)" by blast
    then show "rolling_4w_avg_teu (hd out) = wk_inbound_full_containers (hd out)"
      by (simp add: out)
  qed
  from 1 2 3 4 show ?thesis by blast
qed

lemma five_weeks_inbound:
  "map wk_inbound_full_containers
     (build_weekly_volume_pressure five_weeks sample_ts None None (Fin (115 / 100)) (Fin (9 / 10)))
   = [10, 20, 30, 40, 50]"
  by (simp add: build_weekly_inbound five_weeks_def)

theorem C3_sorted_rolling_witness:
  "five_weeks \<noteq> []
   \<and> 4 < length (build_weekly_volume_pressure five_weeks sample_ts None None
                   (Fin (115 / 100)) (Fin (9 / 10)))
   \<and> sorted (map wk_week_start_date
        (build_weekly_volume_pressure five_weeks sample_ts None None
           (Fin (115 / 100)) (Fin (9 / 10))))
   \<and> rolling_4w_avg_teu
        (build_weekly_volume_pressure five_weeks sample_ts None None
           (Fin (115 / 100)) (Fin (9 / 10)) ! 4) = 35
   \<and> rolling_4w_avg_teu
        (hd (build_weekly_volume_pressure five_weeks sample_ts None None
           (Fin (115 / 100)) (Fin (9 / 10)))) = 10"
proof -
  let ?out = "build_weekly_volume_pressure five_weeks sample_ts None None
                (Fin (115 / 100)) (Fin (9 / 10))"
  note C = C3_sorted_rolling [of five_weeks sample_ts None None "Fin (115 / 100)" "Fin (9 / 10)"]
  have ne: "five_weeks \<noteq> []" by (simp add: five_weeks_def)
  have len: "4 < length ?out" by (simp add: length_build_weekly five_weeks_def)
  have inb: "map wk_inbound_full_containers ?out = [10, 20, 30, 40, 50]"
    by (rule five_weeks_inbound)
  have s: "sorted (map wk_week_start_date ?out)" using C by blast
  have "rolling_4w_avg_teu (?out ! 4) =
          sum_list (map wk_inbound_full_containers (drop (4 - 3) (take (Suc 4) ?out)))
            / real (min (Suc 4) 4)"
    using C len by blast
  also have "\<dots> = sum_list (drop 1 (take 5 (map wk_inbound_full_containers ?out))) / 4"
    by (simp add: drop_map take_map)
  also have "\<dots> = 35" unfolding inb by simp
  finally have r4: "rolling_4w_avg_teu (?out ! 4) = 35" .
  have "rolling_4w_avg_teu (hd ?out) = wk_inbound_full_containers (hd ?out)"
    using C ne by blast
  also have "\<dots> = hd (map wk_inbound_full_containers ?out)"
    using len by (cases ?out) simp_all
  also have "\<dots> = 10" unfolding inb by simp
  finally have r0: "rolling_4w_avg_teu (hd ?out) = 10" .
  from ne len s r4 r0 show ?thesis by blast
qed

text \<open>
  C10. The quotient \<open>inbound_full_containers / rolling_4w_avg_teu\<close> is an unguarded
  column division. For a row whose window (the row and up to three rows before it)
  holds only zero inbound values, the rolling average is 0, the index is the NaN of
  \<open>0 / 0\<close>, both threshold comparisons are false whatever the thresholds, and the flag
  stays NORMAL.
\<close>

theorem C10_zero_window_nan:
  fixes weekly_df ts fd td hi lo
  defines "out \<equiv> build_weekly_volume_pressure weekly_df ts fd td hi lo"
  assumes "i < length out"
    and "\<forall>r \<in> set (drop (i - 3) (take (Suc i) out)). wk_inbound_full_containers r = 0"
  shows "rolling_4w_avg_teu (out ! i) = 0
       \<and> volume_pressure_index (out ! i) = NaN
       \<and> \<not> fge (volume_pressure_index (out ! i)) hi
       \<and> \<not> fle (volume_pressure_index (out ! i)) lo
       \<and> wk_flag (out ! i) = ''NORMAL''"
proof -
  have i: "i < length weekly_df" using assms(2) by (simp add: out_def length_build_weekly)
  have "sum_list (map wk_inbound_full_containers (drop (i - 3) (take (Suc i) out))) = 0"
    using assms(3) by (rule sum_list_map_zero)
  then have avg: "rolling_4w_avg_teu (out ! i) = 0"
    using build_weekly_rolling[OF i] by (simp add: out_def)
  have "out ! i \<in> set (drop (i - 3) (take (Suc i) out))"
    using assms(2) by (simp add: in_set_conv_nth) (rule exI[of _ "i - (i - 3)"], simp add: min_def)
  then have x: "wk_inbound_full_containers (out ! i) = 0" using assms(3) by blast
  have vpi: "volume_pressure_index (out ! i)
           = fdiv (wk_inbound_full_containers (out ! i)) (rolling_4w_avg_teu (out ! i))"
    using i by (simp add: out_def build_weekly_nth Let_def)
  have nan: "volume_pressure_index (out ! i) = NaN"
    by (simp add: vpi x avg fdiv_def)
  have nh: "\<not> fge (volume_pressure_index (out ! i)) hi"
    by (simp add: nan fge_def) (cases hi; simp)
  have nl: "\<not> fle (volume_pressure_index (out ! i)) lo" by (simp add: nan)
  have "wk_flag (out ! i) = ''NORMAL''"
    using build_weekly_flag_nth[OF i, of ts fd td hi lo] nh nl by (simp add: out_def)
  with avg nan nh nl show ?thesis by blast
qed

lemma idle_weeks_inbound:
  "map wk_inbound_full_containers
     (build_weekly_volume_pressure idle_weeks sample_ts None None (Fin (115 / 100)) (Fin (9 / 10)))
   = [70, 0, 0, 0, 0]"
  by (simp add: build_weekly_inbound idle_weeks_def)

theorem C10_zero_window_nan_witness:
  "4 < length (build_weekly_volume_pressure idle_weeks sample_ts None None
                 (Fin (115 / 100)) (Fin (9 / 10)))
   \<and> map wk_inbound_full_containers (drop (4 - 3) (take (Suc 4)
        (build_weekly_volume_pressure idle_weeks sample_ts None None
           (Fin (115 / 100)) (Fin (9 / 10))))) = [0, 0, 0, 0]
   \<and> volume_pressure_index
        (build_weekly_volume_pressure idle_weeks sample_ts None None
           (Fin (115 / 100)) (Fin (9 / 10)) ! 4) = NaN
   \<and> wk_flag
        (build_weekly_volume_pressure idle_weeks sample_ts None None
           (Fin (115 / 100)) (Fin (9 / 10)) ! 4) = ''NORMAL''"
proof -
  let ?out = "build_weekly_volume_pressure idle_weeks sample_ts None None
                (Fin (115 / 100)) (Fin (9 / 10))"
  have len: "4 < length ?out" by (simp add: length_build_weekly idle_weeks_def)
  have w: "map wk_inbound_full_containers (drop (4 - 3) (take (Suc 4) ?out)) = [0, 0, 0, 0]"
    by (simp only: drop_map[symmetric] take_map[symmetric] idle_weeks_inbound) simp
  have z: "\<forall>r \<in> set (drop (4 - 3) (take (Suc 4) ?out)). wk_inbound_full_containers r = 0"
  proof
    fix r assume "r \<in> set (drop (4 - 3) (take (Suc 4) ?out))"
    then have "wk_inbound_full_containers r
        \<in> set (map wk_inbound_full_containers (drop (4 - 3) (take (Suc 4) ?out)))"
      unfolding set_map by (rule imageI)
    then show "wk_inbound_full_containers r = 0" unfolding w by simp
  qed
  show ?thesis
    using C10_zero_window_nan [OF len z] len w by blast
qed

section \<open>Terminal congestion and outgate stress\<close>

lemma groupby_iff:
  "g \<in> set (groupby key df) \<longleftrightarrow>
     fst g \<in> key ` set df \<and> snd g = filter (\<lambda>r. key r = fst g) df"
  by (cases g) (auto simp: groupby_def)

lemma groupby_empty: "groupby key df = [] \<longleftrightarrow> df = []"
proof -
  have "set (sort (remdups (map key df))) = {} \<longleftrightarrow> set df = {}" by simp
  then have "sort (remdups (map key df)) = [] \<longleftrightarrow> df = []"
    unfolding set_empty .
  then show ?thesis by (simp add: groupby_def)
qed

lemma groupby_keys: "map fst (groupby key df) = sort (remdups (map key df))"
  by (simp add: groupby_def comp_def)

lemma build_terminal_congestion_Inr:
  "build_terminal_congestion df ts fd td cb lh eh = Inr rows \<longleftrightarrow>
     df \<noteq> [] \<and> rows = map (terminal_group ts fd td cb lh eh) (groupby load_type df)"
  by (auto simp: build_terminal_congestion_def Let_def groupby_empty)

lemma build_outgate_stress_Inr:
  "build_outgate_stress_by_status df ts fd td sb sh = Inr rows \<longleftrightarrow>
     df \<noteq> [] \<and> rows = map (outgate_group ts fd td sb sh) (groupby status df)"
  by (auto simp: build_outgate_stress_by_status_def Let_def groupby_empty)

lemma terminal_group_fields:
  "tk_load_type (terminal_group ts fd td cb lh eh g) = fst g"
  "tk_total_containers (terminal_group ts fd td cb lh eh g) = series_sum (map tc_containers (snd g))"
  "congested_containers (terminal_group ts fd td cb lh eh g)
     = series_sum (map tc_containers (filter (\<lambda>r. tc_bucket r \<in> set cb) (snd g)))"
  "congested_pct (terminal_group ts fd td cb lh eh g)
     = (if series_sum (map tc_containers (snd g)) \<noteq> 0
        then fdiv (series_sum (map tc_containers (filter (\<lambda>r. tc_bucket r \<in> set cb) (snd g))))
               (series_sum (map tc_containers (snd g)))
        else Fin 0)"
  "tk_extraction_ts_utc (terminal_group ts fd td cb lh eh g) = ts"
  "tk_from_date (terminal_group ts fd td cb lh eh g) = tag fd"
  "tk_to_date (terminal_group ts fd td cb lh eh g) = tag td"
  by (simp_all add: terminal_group_def Let_def)

lemma terminal_group_flag:
  "tk_flag (terminal_group ts fd td cb lh eh g) =
     (if (str_lower (fst g) = ''loaded'' \<and> fge (congested_pct (terminal_group ts fd td cb lh eh g)) lh)
       \<or> (str_lower (fst g) = ''empty'' \<and> fge (congested_pct (terminal_group ts fd td cb lh eh g)) eh)
      then ''HIGH'' else ''NORMAL'')"
  by (simp add: terminal_group_def Let_def)

lemma outgate_group_fields:
  "ok_status (outgate_group ts fd td sb sh g) = fst g"
  "ok_total_containers (outgate_group ts fd td sb sh g) = series_sum (map og_containers (snd g))"
  "slow_containers (outgate_group ts fd td sb sh g)
     = series_sum (map og_containers (filter (\<lambda>r. og_bucket r \<in> set sb) (snd g)))"
  "slow_pct (outgate_group ts fd td sb sh g)
     = (if series_sum (map og_containers (snd g)) \<noteq> 0
        then fdiv (series_sum (map og_containers (filter (\<lambda>r. og_bucket r \<in> set sb) (snd g))))
               (series_sum (map og_containers (snd g)))
        else Fin 0)"
  "ok_extraction_ts_utc (outgate_group ts fd td sb sh g) = ts"
  "ok_from_date (outgate_group ts fd td sb sh g) = tag fd"
  "ok_to_date (outgate_group ts fd td sb sh g) = tag td"
  by (simp_all add: outgate_group_def Let_def)

lemma outgate_group_flag:
  "ok_flag (outgate_group ts fd td sb sh g) =
     (if fge (slow_pct (outgate_group ts fd td sb sh g)) sh then ''HIGH'' else ''NORMAL'')"
  by (simp add: outgate_group_def Let_def)

text \<open>Lowering a string gives a lower-case word exactly when the string is that word up
  to the case of its letters.\<close>

lemma lower_char_eq_iff:
  assumes "d \<in> set ''abcdefghijklmnopqrstuvwxyz''"
  shows "lower_char c = d \<longleftrightarrow> same_letter c d"
proof -
  define T where "T = zip ''ABCDEFGHIJKLMNOPQRSTUVWXYZ'' ''abcdefghijklmnopqrstuvwxyz''"
  have dist: "distinct (map fst T)" by (simp add: T_def)
  have disj: "\<forall>p \<in> set T. \<forall>q \<in> set T. fst p \<noteq> snd q" by (simp add: T_def)
  have eq: "set ''abcdefghijklmnopqrstuvwxyz'' = snd ` set T"
    unfolding T_def set_map[symmetric] by simp
  have "d \<in> snd ` set T" using assms by (simp only: eq)
  then obtain u where u: "(u, d) \<in> set T" by force
  have lc: "lower_char c = (case map_of T c of Some e \<Rightarrow> e | None \<Rightarrow> c)"
    by (simp only: lower_char_def T_def)
  have sl: "same_letter c d \<longleftrightarrow> c = d \<or> (c, d) \<in> set T \<or> (d, c) \<in> set T"
    by (simp only: same_letter_def T_def)
  have nd: "(d, c) \<notin> set T" using disj u by force
  show ?thesis
  proof (cases "map_of T c")
    case None
    then have "(c, d) \<notin> set T" by (metis map_of_SomeD weak_map_of_SomeI option.distinct(1))
    with None nd show ?thesis by (simp add: lc sl)
  next
    case (Some e)
    then have ce: "(c, e) \<in> set T" by (rule map_of_SomeD)
    then have "c \<noteq> d" using disj u by force
    moreover have "(c, d) \<in> set T \<longleftrightarrow> e = d"
      using Some dist ce by (metis map_of_eq_Some_iff option.inject)
    ultimately show ?thesis using Some nd by (simp add: lc sl)
  qed
qed

lemma str_lower_eq_iff:
  assumes "set t \<subseteq> set ''abcdefghijklmnopqrstuvwxyz''"
  shows "str_lower s = t \<longleftrightarrow> ci_eq s t"
  using assms
proof (induction t arbitrary: s)
  case Nil
  then show ?case by (simp add: str_lower_def ci_eq_def)
next
  case (Cons d ds)
  then have d: "d \<in> set ''abcdefghijklmnopqrstuvwxyz''"
    and ds: "set ds \<subseteq> set ''abcdefghijklmnopqrstuvwxyz''"
    by simp_all
  have IH: "str_lower cs = ds \<longleftrightarrow> ci_eq cs ds" for cs using Cons.IH[OF ds] .
  show ?case
  proof (cases s)
    case Nil
    then show ?thesis by (simp add: str_lower_def ci_eq_def)
  next
    case c: (Cons c cs)
    have "str_lower s = d # ds \<longleftrightarrow> lower_char c = d \<and> str_lower cs = ds"
      by (simp add: c str_lower_def)
    also have "\<dots> \<longleftrightarrow> same_letter c d \<and> ci_eq cs ds"
      unfolding lower_char_eq_iff[OF d] IH ..
    also have "\<dots> \<longleftrightarrow> ci_eq s (d # ds)"
      by (simp add: c ci_eq_def)
    finally show ?thesis .
  qed
qed

lemma lower_loaded: "str_lower s = ''loaded'' \<longleftrightarrow> ci_eq s ''loaded''"
  by (rule str_lower_eq_iff) simp

lemma lower_empty: "str_lower s = ''empty'' \<longleftrightarrow> ci_eq s ''empty''"
  by (rule str_lower_eq_iff) simp

lemma terminal_row_flag:
  assumes "build_terminal_congestion terminal_df ts fd td cb loaded_high empty_high = Inr rows"
    and "r \<in> set rows"
  shows "tk_flag r =
     (if (ci_eq (tk_load_type r) ''loaded'' \<and> fge (congested_pct r) loaded_high)
       \<or> (ci_eq (tk_load_type r) ''empty'' \<and> fge (congested_pct r) empty_high)
      then ''HIGH'' else ''NORMAL'')"
proof -
  from assms obtain g where r: "r = terminal_group ts fd td cb loaded_high empty_high g"
    by (auto simp: build_terminal_congestion_Inr)
  have lt: "tk_load_type r = fst g" by (simp add: r terminal_group_fields)
  show ?thesis
    unfolding lower_loaded[symmetric] lower_empty[symmetric] lt
    unfolding r by (rule terminal_group_flag)
qed

text \<open>
  C6. The terminal-congestion table has one row for each load type of the dataset.
  A row is flagged HIGH exactly when its load type is "loaded", whatever the case of
  its letters, and its congested share reaches \<open>loaded_high\<close>, or its load type is
  "empty", whatever the case of its letters, and the share reaches \<open>empty_high\<close>;
  otherwise it is NORMAL. A group of any other load type is never HIGH, whatever its
  share.
\<close>

theorem C6_terminal_flag:
  assumes "build_terminal_congestion terminal_df ts fd td cb loaded_high empty_high = Inr rows"
    and "r \<in> set rows"
  shows "(tk_flag r = ''HIGH'' \<longleftrightarrow>
            (ci_eq (tk_load_type r) ''loaded'' \<and> fge (congested_pct r) loaded_high)
          \<or> (ci_eq (tk_load_type r) ''empty'' \<and> fge (congested_pct r) empty_high))
       \<and> (tk_flag r \<noteq> ''HIGH'' \<longrightarrow> tk_flag r = ''NORMAL'')
       \<and> (\<not> ci_eq (tk_load_type r) ''loaded'' \<and> \<not> ci_eq (tk_load_type r) ''empty''
            \<longrightarrow> tk_flag r = ''NORMAL'')
       \<and> set (map tk_load_type rows) = load_type ` set terminal_df
       \<and> distinct (map tk_load_type rows)
       \<and> congested_pct r
            = (if tk_total_containers r \<noteq> 0
               then fdiv (congested_containers r) (tk_total_containers r) else Fin 0)"
proof -
  from assms obtain g where r: "r = terminal_group ts fd td cb loaded_high empty_high g"
    by (auto simp: build_terminal_congestion_Inr)
  have fl: "tk_flag r =
     (if (ci_eq (tk_load_type r) ''loaded'' \<and> fge (congested_pct r) loaded_high)
       \<or> (ci_eq (tk_load_type r) ''empty'' \<and> fge (congested_pct r) empty_high)
      then ''HIGH'' else ''NORMAL'')"
    using assms by (rule terminal_row_flag)
  have 1: "tk_flag r = ''HIGH'' \<longleftrightarrow>
            (ci_eq (tk_load_type r) ''loaded'' \<and> fge (congested_pct r) loaded_high)
          \<or> (ci_eq (tk_load_type r) ''empty'' \<and> fge (congested_pct r) empty_high)"
    by (subst fl) simp
  have 2: "tk_flag r \<noteq> ''HIGH'' \<longrightarrow> tk_flag r = ''NORMAL''"
    by (subst (1 2) fl) simp
  have 3: "\<not> ci_eq (tk_load_type r) ''loaded'' \<and> \<not> ci_eq (tk_load_type r) ''empty''
            \<longrightarrow> tk_flag r = ''NORMAL''"
    by (subst fl) simp
  have "map tk_load_type rows = map fst (groupby load_type terminal_df)"
    using assms(1) by (simp add: build_terminal_congestion_Inr terminal_group_fields comp_def)
  then have k: "map tk_load_type rows = sort (remdups (map load_type terminal_df))"
    by (simp only: groupby_keys)
  have 4: "set (map tk_load_type rows) = load_type ` set terminal_df"
    "distinct (map tk_load_type rows)"
    unfolding k by simp_all
  have 5: "congested_pct r
            = (if tk_total_containers r \<noteq> 0
               then fdiv (congested_containers r) (tk_total_containers r) else Fin 0)"
    by (simp add: r terminal_group_fields)
  from 1 2 3 4 5 show ?thesis by blast
qed

lemma mixed_yard_shares:
  "map (\<lambda>r. (tk_load_type r, congested_pct r))
     (map (terminal_group sample_ts None None [''9-12 Days'', ''13+ Days'']
             (Fin (25 / 100)) (Fin (50 / 100))) (groupby load_type mixed_yard))
   = [(''Empty'', Fin (3 / 10)), (''LOADED'', Fin (3 / 10)), (''Reefer'', Fin 1),
      (''eMpTy'', Fin (6 / 10)), (''loaded'', Fin 0)]"
  by (simp add: groupby_def mixed_yard_def terminal_group_fields series_sum_def wrap64_def
      fdiv_def)

text \<open>In the mixed yard, with thresholds 0.25 and 0.50: LOADED at 0.3 is HIGH and Empty at
  0.3 is NORMAL, eMpTy at 0.6 is HIGH, loaded at 0 is NORMAL, and Reefer, fully
  congested, is NORMAL.\<close>

theorem C6_terminal_flag_witness:
  "build_terminal_congestion mixed_yard sample_ts None None [''9-12 Days'', ''13+ Days'']
       (Fin (25 / 100)) (Fin (50 / 100))
     = Inr (map (terminal_group sample_ts None None [''9-12 Days'', ''13+ Days'']
                  (Fin (25 / 100)) (Fin (50 / 100))) (groupby load_type mixed_yard))
   \<and> map (\<lambda>r. (tk_load_type r, congested_pct r, tk_flag r))
        (map (terminal_group sample_ts None None [''9-12 Days'', ''13+ Days'']
                (Fin (25 / 100)) (Fin (50 / 100))) (groupby load_type mixed_yard))
     = [(''Empty'', Fin (3 / 10), ''NORMAL''), (''LOADED'', Fin (3 / 10), ''HIGH''),
        (''Reefer'', Fin 1, ''NORMAL''), (''eMpTy'', Fin (6 / 10), ''HIGH''),
        (''loaded'', Fin 0, ''NORMAL'')]"
proof -
  let ?lh = "Fin (25 / 100)" and ?eh = "Fin (50 / 100)"
  let ?rows = "map (terminal_group sample_ts None None [''9-12 Days'', ''13+ Days''] ?lh ?eh)
                 (groupby load_type mixed_yard)"
  let ?flag = "\<lambda>p. if (ci_eq (fst p) ''loaded'' \<and> fge (snd p) ?lh)
                       \<or> (ci_eq (fst p) ''empty'' \<and> fge (snd p) ?eh)
                    then ''HIGH'' else ''NORMAL''"
  have b: "build_terminal_congestion mixed_yard sample_ts None None [''9-12 Days'', ''13+ Days'']
             ?lh ?eh = Inr ?rows"
    by (simp add: build_terminal_congestion_Inr mixed_yard_def)
  have f: "tk_flag r = ?flag (tk_load_type r, congested_pct r)" if "r \<in> set ?rows" for r
  proof -
    note C = C6_terminal_flag [OF b that]
    have "tk_flag r = ''HIGH'' \<or> tk_flag r = ''NORMAL''" using C by blast
    moreover have "tk_flag r = ''HIGH'' \<longleftrightarrow>
            (ci_eq (tk_load_type r) ''loaded'' \<and> fge (congested_pct r) ?lh)
          \<or> (ci_eq (tk_load_type r) ''empty'' \<and> fge (congested_pct r) ?eh)"
      using C by blast
    ultimately show ?thesis by auto
  qed
  have "map (\<lambda>r. (tk_load_type r, congested_pct r, tk_flag r)) ?rows
      = map (\<lambda>r. (tk_load_type r, congested_pct r, ?flag (tk_load_type r, congested_pct r))) ?rows"
    using f by (intro map_cong refl) simp
  also have "\<dots> = map (\<lambda>p. (fst p, snd p, ?flag p))
                      (map (\<lambda>r. (tk_load_type r, congested_pct r)) ?rows)"
    by (simp add: comp_def)
  also have "\<dots> = [(''Empty'', Fin (3 / 10), ''NORMAL''), (''LOADED'', Fin (3 / 10), ''HIGH''),
        (''Reefer'', Fin 1, ''NORMAL''), (''eMpTy'', Fin (6 / 10), ''HIGH''),
        (''loaded'', Fin 0, ''NORMAL'')]"
    unfolding mixed_yard_shares by (simp add: ci_eq_def same_letter_def fge_def)
  finally show ?thesis using b by blast
qed

lemma yard_groups:
  "groupby load_type yard =
     [(''EMPTY'', [\<lparr>load_type = ''EMPTY'', tc_bucket = ''9-12 Days'', tc_containers = I64 0\<rparr>]),
      (''Loaded'', [\<lparr>load_type = ''Loaded'', tc_bucket = ''13+ Days'', tc_containers = I64 30\<rparr>,
                    \<lparr>load_type = ''Loaded'', tc_bucket = ''0-4 Days'', tc_containers = I64 70\<rparr>]),
      (''Reefer'', [\<lparr>load_type = ''Reefer'', tc_bucket = ''13+ Days'', tc_containers = I64 8\<rparr>])]"
  by (simp add: groupby_def yard_def)

lemma gate_groups:
  "groupby status gate =
     [(''Export'', [\<lparr>status = ''Export'', og_bucket = ''5-8 Days'', og_containers = I64 6\<rparr>,
                    \<lparr>status = ''Export'', og_bucket = ''0-4 Days'', og_containers = I64 4\<rparr>]),
      (''Import'', [\<lparr>status = ''Import'', og_bucket = ''5-8 Days'', og_containers = I64 0\<rparr>]),
      (''Transship'', [\<lparr>status = ''Transship'', og_bucket = ''13+ Days'', og_containers = I64 5\<rparr>])]"
  by (simp add: groupby_def gate_def)

lemma yard_nonempty: "yard \<noteq> []"
  by (simp add: yard_def)

lemma gate_nonempty: "gate \<noteq> []"
  by (simp add: gate_def)

lemma fge_zero:
  "fge (Fin 0) (Fin x) \<longleftrightarrow> x \<le> 0"
  "\<not> fge (Fin 0) NaN"
  "\<not> fge (Fin 0) PInf"
  "fge (Fin 0) NInf"
  by (simp_all add: fge_def)

text \<open>
  C7, as stated, fails: a group whose total is 0 has percentage 0.0, and \<open>0.0 >= t\<close>
  holds for a threshold \<open>t \<le> 0\<close>, so the group is flagged HIGH.
\<close>

theorem C7_zero_total_counterexample:
  "build_outgate_stress_by_status
       [\<lparr>status = ''Import'', og_bucket = ''5-8 Days'', og_containers = I64 0\<rparr>]
       sample_ts None None [''5-8 Days'', ''9-12 Days'', ''13+ Days''] (Fin 0)
     = Inr [\<lparr>ok_status = ''Import'', ok_total_containers = 0, slow_containers = 0,
             slow_pct = Fin 0, ok_flag = ''HIGH'', ok_extraction_ts_utc = sample_ts,
             ok_from_date = None, ok_to_date = None\<rparr>]
   \<and> build_terminal_congestion
       [\<lparr>load_type = ''loaded'', tc_bucket = ''0-4 Days'', tc_containers = I64 0\<rparr>]
       sample_ts None None [''9-12 Days'', ''13+ Days''] (Fin 0) (Fin (50 / 100))
     = Inr [\<lparr>tk_load_type = ''loaded'', tk_total_containers = 0, congested_containers = 0,
             congested_pct = Fin 0, tk_flag = ''HIGH'', tk_extraction_ts_utc = sample_ts,
             tk_from_date = None, tk_to_date = None\<rparr>]"
  by (simp add: build_outgate_stress_by_status_def build_terminal_congestion_def groupby_def
      outgate_group_def terminal_group_def series_sum_def wrap64_def fge_def tag_def
      str_lower_def lower_char_def)

text \<open>
  C7, amended. For every group of the terminal-congestion table and every status group
  of the outgate table whose total container count is 0, the percentage is 0.0, and the
  builders raise nothing on a non-empty dataset. Such a status group is HIGH exactly
  when \<open>0.0 >= slow_high\<close> holds, that is for a threshold \<open>\<le> 0\<close>, and NORMAL
  otherwise. Such a terminal group is HIGH exactly when its load type is "loaded"
  (whatever the case) and \<open>0.0 >= loaded_high\<close> holds, or its load type is "empty" and
  \<open>0.0 >= empty_high\<close> holds, and NORMAL otherwise. So the flag is NORMAL whenever the
  threshold that applies to the group is greater than 0.
\<close>

theorem C7_zero_total:
  "(\<forall>rows r. build_terminal_congestion terminal_df ts fd td cb loaded_high empty_high = Inr rows
        \<and> r \<in> set rows \<and> tk_total_containers r = 0
      \<longrightarrow> congested_pct r = Fin 0
        \<and> (tk_flag r = ''HIGH'' \<longleftrightarrow>
              (ci_eq (tk_load_type r) ''loaded'' \<and> fge (Fin 0) loaded_high)
            \<or> (ci_eq (tk_load_type r) ''empty'' \<and> fge (Fin 0) empty_high))
        \<and> (tk_flag r \<noteq> ''HIGH'' \<longrightarrow> tk_flag r = ''NORMAL''))
   \<and> (\<forall>rows r. build_outgate_stress_by_status outgate_df ts fd td sb slow_high = Inr rows
        \<and> r \<in> set rows \<and> ok_total_containers r = 0
      \<longrightarrow> slow_pct r = Fin 0
        \<and> (ok_flag r = ''HIGH'' \<longleftrightarrow> fge (Fin 0) slow_high)
        \<and> (ok_flag r \<noteq> ''HIGH'' \<longrightarrow> ok_flag r = ''NORMAL''))
   \<and> (\<forall>x. fge (Fin 0) (Fin x) \<longleftrightarrow> x \<le> 0)
   \<and> \<not> fge (Fin 0) NaN \<and> \<not> fge (Fin 0) PInf \<and> fge (Fin 0) NInf
   \<and> (terminal_df \<noteq> [] \<longrightarrow>
        (\<exists>rows. build_terminal_congestion terminal_df ts fd td cb loaded_high empty_high = Inr rows))
   \<and> (outgate_df \<noteq> [] \<longrightarrow>
        (\<exists>rows. build_outgate_stress_by_status outgate_df ts fd td sb slow_high = Inr rows))"
proof -
  have T: "congested_pct r = Fin 0
        \<and> (tk_flag r = ''HIGH'' \<longleftrightarrow>
              (ci_eq (tk_load_type r) ''loaded'' \<and> fge (Fin 0) loaded_high)
            \<or> (ci_eq (tk_load_type r) ''empty'' \<and> fge (Fin 0) empty_high))
        \<and> (tk_flag r \<noteq> ''HIGH'' \<longrightarrow> tk_flag r = ''NORMAL'')"
    if a: "build_terminal_congestion terminal_df ts fd td cb loaded_high empty_high = Inr rows
        \<and> r \<in> set rows \<and> tk_total_containers r = 0" for rows r
  proof -
    from a obtain g where r: "r = terminal_group ts fd td cb loaded_high empty_high g"
      by (auto simp: build_terminal_congestion_Inr)
    from a have z: "series_sum (map tc_containers (snd g)) = 0"
      by (simp add: r terminal_group_fields)
    have p: "congested_pct r = Fin 0"
      by (simp add: r terminal_group_fields z)
    have fl: "tk_flag r =
       (if (ci_eq (tk_load_type r) ''loaded'' \<and> fge (congested_pct r) loaded_high)
         \<or> (ci_eq (tk_load_type r) ''empty'' \<and> fge (congested_pct r) empty_high)
        then ''HIGH'' else ''NORMAL'')"
      using a by (intro terminal_row_flag) blast+
    show ?thesis using fl unfolding p by (simp add: p)
  qed
  have G: "slow_pct r = Fin 0
        \<and> (ok_flag r = ''HIGH'' \<longleftrightarrow> fge (Fin 0) slow_high)
        \<and> (ok_flag r \<noteq> ''HIGH'' \<longrightarrow> ok_flag r = ''NORMAL'')"
    if a: "build_outgate_stress_by_status outgate_df ts fd td sb slow_high = Inr rows
        \<and> r \<in> set rows \<and> ok_total_containers r = 0" for rows r
  proof -
    from a obtain g where r: "r = outgate_group ts fd td sb slow_high g"
      by (auto simp: build_outgate_stress_Inr)
    from a have z: "series_sum (map og_containers (snd g)) = 0"
      by (simp add: r outgate_group_fields)
    have p: "slow_pct r = Fin 0"
      by (simp add: r outgate_group_fields z)
    have fl: "ok_flag r = (if fge (slow_pct r) slow_high then ''HIGH'' else ''NORMAL'')"
      unfolding r by (rule outgate_group_flag)
    show ?thesis using fl unfolding p by (simp add: p)
  qed
  have E: "terminal_df \<noteq> [] \<longrightarrow>
        (\<exists>rows. build_terminal_congestion terminal_df ts fd td cb loaded_high empty_high = Inr rows)"
    "outgate_df \<noteq> [] \<longrightarrow>
        (\<exists>rows. build_outgate_stress_by_status outgate_df ts fd td sb slow_high = Inr rows)"
    by (simp_all add: build_terminal_congestion_Inr build_outgate_stress_Inr)
  from T G E fge_zero show ?thesis by blast
qed

text \<open>In the sample yard the EMPTY group holds no containers. With \<open>loaded_high = 0\<close> and
  \<open>empty_high = 0.5\<close> it is NORMAL, since the threshold that applies to it is positive;
  with \<open>loaded_high = 0.25\<close> and \<open>empty_high = 0\<close> it is HIGH. At the sample gate the
  Import status holds no containers and is NORMAL at the default threshold.\<close>

theorem C7_zero_total_witness:
  "build_terminal_congestion yard sample_ts None None [''9-12 Days'', ''13+ Days'']
       (Fin 0) (Fin (50 / 100))
     = Inr (map (terminal_group sample_ts None None [''9-12 Days'', ''13+ Days'']
                  (Fin 0) (Fin (50 / 100))) (groupby load_type yard))
   \<and> tk_total_containers (terminal_group sample_ts None None [''9-12 Days'', ''13+ Days'']
        (Fin 0) (Fin (50 / 100))
        (''EMPTY'', [\<lparr>load_type = ''EMPTY'', tc_bucket = ''9-12 Days'', tc_containers = I64 0\<rparr>]))
       = 0
   \<and> congested_pct (terminal_group sample_ts None None [''9-12 Days'', ''13+ Days'']
        (Fin 0) (Fin (50 / 100))
        (''EMPTY'', [\<lparr>load_type = ''EMPTY'', tc_bucket = ''9-12 Days'', tc_containers = I64 0\<rparr>]))
       = Fin 0
   \<and> tk_flag (terminal_group sample_ts None None [''9-12 Days'', ''13+ Days'']
        (Fin 0) (Fin (50 / 100))
        (''EMPTY'', [\<lparr>load_type = ''EMPTY'', tc_bucket = ''9-12 Days'', tc_containers = I64 0\<rparr>]))
       = ''NORMAL''
   \<and> build_terminal_congestion yard sample_ts None None [''9-12 Days'', ''13+ Days'']
       (Fin (25 / 100)) (Fin 0)
     = Inr (map (terminal_group sample_ts None None [''9-12 Days'', ''13+ Days'']
                  (Fin (25 / 100)) (Fin 0)) (groupby load_type yard))
   \<and> tk_flag (terminal_group sample_ts None None [''9-12 Days'', ''13+ Days'']
        (Fin (25 / 100)) (Fin 0)
        (''EMPTY'', [\<lparr>load_type = ''EMPTY'', tc_bucket = ''9-12 Days'', tc_containers = I64 0\<rparr>]))
       = ''HIGH''
   \<and> build_outgate_stress_by_status gate sample_ts None None
       [''5-8 Days'', ''9-12 Days'', ''13+ Days''] (Fin (40 / 100))
     = Inr (map (outgate_group sample_ts None None [''5-8 Days'', ''9-12 Days'', ''13+ Days'']
                  (Fin (40 / 100))) (groupby status gate))
   \<and> slow_pct (outgate_group sample_ts None None [''5-8 Days'', ''9-12 Days'', ''13+ Days'']
        (Fin (40 / 100))
        (''Import'', [\<lparr>status = ''Import'', og_bucket = ''5-8 Days'', og_containers = I64 0\<rparr>]))
       = Fin 0
   \<and> ok_flag (outgate_group sample_ts None None [''5-8 Days'', ''9-12 Days'', ''13+ Days'']
        (Fin (40 / 100))
        (''Import'', [\<lparr>status = ''Import'', og_bucket = ''5-8 Days'', og_containers = I64 0\<rparr>]))
       = ''NORMAL''"
proof -
  let ?cb = "[''9-12 Days'', ''13+ Days'']"
  let ?sb = "[''5-8 Days'', ''9-12 Days'', ''13+ Days'']"
  let ?f = "terminal_group sample_ts None None ?cb (Fin 0) (Fin (50 / 100))"
  let ?f' = "terminal_group sample_ts None None ?cb (Fin (25 / 100)) (Fin 0)"
  let ?g = "(''EMPTY'', [\<lparr>load_type = ''EMPTY'', tc_bucket = ''9-12 Days'', tc_containers = I64 0\<rparr>])"
  let ?h = "outgate_group sample_ts None None ?sb (Fin (40 / 100))"
  let ?k = "(''Import'', [\<lparr>status = ''Import'', og_bucket = ''5-8 Days'', og_containers = I64 0\<rparr>])"
  note C = C7_zero_total [of yard sample_ts None None ?cb "Fin 0" "Fin (50 / 100)"
      gate ?sb "Fin (40 / 100)"]
  note C' = C7_zero_total [of yard sample_ts None None ?cb "Fin (25 / 100)" "Fin 0"
      gate ?sb "Fin (40 / 100)"]
  have e: "ci_eq ''EMPTY'' ''empty''" "\<not> ci_eq ''EMPTY'' ''loaded''"
    by (simp_all add: ci_eq_def same_letter_def)
  have b: "build_terminal_congestion yard sample_ts None None ?cb (Fin 0) (Fin (50 / 100))
             = Inr (map ?f (groupby load_type yard))"
    by (simp add: build_terminal_congestion_Inr yard_nonempty)
  have m: "?f ?g \<in> set (map ?f (groupby load_type yard))"
    unfolding yard_groups by simp
  have z: "tk_total_containers (?f ?g) = 0"
    by (simp add: terminal_group_fields series_sum_def wrap64_def)
  have lt: "tk_load_type (?f ?g) = ''EMPTY''"
    by (simp add: terminal_group_fields)
  note T = C [THEN conjunct1, THEN spec, THEN spec, THEN mp, OF conjI [OF b conjI [OF m z]]]
  have 1: "congested_pct (?f ?g) = Fin 0 \<and> tk_flag (?f ?g) = ''NORMAL''"
    using T unfolding lt by (simp add: e fge_def)
  have b': "build_terminal_congestion yard sample_ts None None ?cb (Fin (25 / 100)) (Fin 0)
             = Inr (map ?f' (groupby load_type yard))"
    by (simp add: build_terminal_congestion_Inr yard_nonempty)
  have m': "?f' ?g \<in> set (map ?f' (groupby load_type yard))"
    unfolding yard_groups by simp
  have z': "tk_total_containers (?f' ?g) = 0"
    by (simp add: terminal_group_fields series_sum_def wrap64_def)
  have lt': "tk_load_type (?f' ?g) = ''EMPTY''"
    by (simp add: terminal_group_fields)
  note T' = C' [THEN conjunct1, THEN spec, THEN spec, THEN mp, OF conjI [OF b' conjI [OF m' z']]]
  have 2: "tk_flag (?f' ?g) = ''HIGH''"
    using T' unfolding lt' by (simp add: e fge_def)
  have b'': "build_outgate_stress_by_status gate sample_ts None None ?sb (Fin (40 / 100))
             = Inr (map ?h (groupby status gate))"
    by (simp add: build_outgate_stress_Inr gate_nonempty)
  have m'': "?h ?k \<in> set (map ?h (groupby status gate))"
    unfolding gate_groups by simp
  have z'': "ok_total_containers (?h ?k) = 0"
    by (simp add: outgate_group_fields series_sum_def wrap64_def)
  note G = C [THEN conjunct2, THEN conjunct1, THEN spec, THEN spec, THEN mp,
      OF conjI [OF b'' conjI [OF m'' z'']]]
  have 3: "slow_pct (?h ?k) = Fin 0 \<and> ok_flag (?h ?k) = ''NORMAL''"
    using G by (simp add: fge_def)
  show ?thesis
    by (intro conjI b z 1 [THEN conjunct1] 1 [THEN conjunct2] b' 2 b''
        3 [THEN conjunct1] 3 [THEN conjunct2])
qed

section \<open>Health summary\<close>

lemma first_of_filter:
  "(case filter P xs of [] \<Rightarrow> a | r # _ \<Rightarrow> f r) = (case find P xs of None \<Rightarrow> a | Some r \<Rightarrow> f r)"
  by (induction xs) simp_all

lemma flag_for_load_type_find:
  "flag_for_load_type df lt =
     (case find (\<lambda>r. str_lower (tk_load_type r) = lt) df of
        None \<Rightarrow> ''UNKNOWN'' | Some r \<Rightarrow> tk_flag r)"
  unfolding flag_for_load_type_def by (rule first_of_filter)

lemma sorted_le_last:
  "sorted (xs :: 'a :: linorder list) \<Longrightarrow> x \<in> set xs \<Longrightarrow> x \<le> last xs"
  by (induction xs) (auto dest: last_in_set)

lemma last_sort_key_max:
  assumes "xs \<noteq> []"
  shows "last (sort_key f xs) \<in> set xs \<and> (\<forall>u \<in> set xs. f u \<le> f (last (sort_key f xs)))"
proof -
  let ?ys = "sort_key f xs"
  have ne: "?ys \<noteq> []" using assms by (metis length_sort length_0_conv)
  have mem: "last ?ys \<in> set xs" using last_in_set[OF ne] by simp
  have "\<forall>u \<in> set xs. f u \<le> f (last ?ys)"
  proof
    fix u assume "u \<in> set xs"
    then have "f u \<in> set (map f ?ys)" by simp
    then have "f u \<le> last (map f ?ys)"
      using sorted_le_last[OF sorted_sort_key[of f xs]] by blast
    then show "f u \<le> f (last ?ys)" using ne by (simp add: last_map)
  qed
  with mem show ?thesis by blast
qed

lemma build_health_summary_row:
  assumes "volume_df \<noteq> []"
    and "find (\<lambda>r. record_type r = ''summary'') berth_df = Some b"
  shows "build_health_summary volume_df terminal_df outgate_df berth_df ts =
     Inr [\<lparr>volume_pressure_flag = wk_flag (last (sort_key wk_week_start_date volume_df)),
           terminal_congestion_loaded_flag = flag_for_load_type terminal_df ''loaded'',
           terminal_congestion_empty_flag = flag_for_load_type terminal_df ''empty'',
           outgate_stress_high_statuses =
             (if map ok_status (filter (\<lambda>r. ok_flag r = ''HIGH'') outgate_df) \<noteq> []
              then str_join '', '' (map ok_status (filter (\<lambda>r. ok_flag r = ''HIGH'') outgate_df))
              else ''NONE''),
           berth_flag = bk_flag b,
           hs_extraction_ts_utc = ts\<rparr>]"
proof -
  obtain v vs where s: "sort_key wk_week_start_date volume_df = v # vs"
    using assms(1) by (cases "sort_key wk_week_start_date volume_df") (auto dest: arg_cong[of _ _ length])
  have "(case filter (\<lambda>r. record_type r = ''summary'') berth_df of [] \<Rightarrow> None | r # _ \<Rightarrow> Some r)
          = Some b"
    using assms(2) first_of_filter[of None "\<lambda>r. Some r" "\<lambda>r. record_type r = ''summary''" berth_df]
    by (simp split: option.splits)
  then obtain bs where f: "filter (\<lambda>r. record_type r = ''summary'') berth_df = b # bs"
    by (cases "filter (\<lambda>r. record_type r = ''summary'') berth_df") auto
  show ?thesis
    unfolding build_health_summary_def s f by (simp add: Let_def)
qed


text \<open>
  C5. Given a volume table with at least one row and a berth table with a summary row,
  \<open>build_health_summary\<close> returns exactly one row. Its volume flag is the flag of a row
  whose \<open>week_start_date\<close> is the maximum of the volume table; its loaded and empty
  flags are the flag of the first terminal row whose load type is "loaded" (resp.
  "empty") ignoring case, or UNKNOWN when there is none; its status list is the
  statuses of the outgate rows flagged HIGH joined by \<open>", "\<close>, or NONE when no row is
  flagged HIGH; its berth flag is the flag of the first summary row of the berth table.
\<close>

theorem C5_health_summary:
  assumes "volume_df \<noteq> []"
    and "find (\<lambda>r. record_type r = ''summary'') berth_df = Some b"
  shows "\<exists>row v. build_health_summary volume_df terminal_df outgate_df berth_df ts = Inr [row]
       \<and> v \<in> set volume_df
       \<and> (\<forall>u \<in> set volume_df. wk_week_start_date u \<le> wk_week_start_date v)
       \<and> volume_pressure_flag row = wk_flag v
       \<and> terminal_congestion_loaded_flag row =
           (case find (\<lambda>r. str_lower (tk_load_type r) = ''loaded'') terminal_df of
              None \<Rightarrow> ''UNKNOWN'' | Some r \<Rightarrow> tk_flag r)
       \<and> terminal_congestion_empty_flag row =
           (case find (\<lambda>r. str_lower (tk_load_type r) = ''empty'') terminal_df of
              None \<Rightarrow> ''UNKNOWN'' | Some r \<Rightarrow> tk_flag r)
       \<and> outgate_stress_high_statuses row =
           (if \<forall>r \<in> set outgate_df. ok_flag r \<noteq> ''HIGH'' then ''NONE''
            else str_join '', '' (map ok_status (filter (\<lambda>r. ok_flag r = ''HIGH'') outgate_df)))
       \<and> berth_flag row = bk_flag b
       \<and> hs_extraction_ts_utc row = ts"
proof -
  let ?v = "last (sort_key wk_week_start_date volume_df)"
  let ?hs = "map ok_status (filter (\<lambda>r. ok_flag r = ''HIGH'') outgate_df)"
  let ?row = "\<lparr>volume_pressure_flag = wk_flag ?v,
           terminal_congestion_loaded_flag = flag_for_load_type terminal_df ''loaded'',
           terminal_congestion_empty_flag = flag_for_load_type terminal_df ''empty'',
           outgate_stress_high_statuses = (if ?hs \<noteq> [] then str_join '', '' ?hs else ''NONE''),
           berth_flag = bk_flag b,
           hs_extraction_ts_utc = ts\<rparr>"
  have r: "build_health_summary volume_df terminal_df outgate_df berth_df ts = Inr [?row]"
    using assms by (rule build_health_summary_row)
  have v: "?v \<in> set volume_df \<and> (\<forall>u \<in> set volume_df. wk_week_start_date u \<le> wk_week_start_date ?v)"
    using assms(1) by (rule last_sort_key_max)
  have e: "(?hs = []) \<longleftrightarrow> (\<forall>r \<in> set outgate_df. ok_flag r \<noteq> ''HIGH'')"
    by (simp add: filter_empty_conv)
  have o: "outgate_stress_high_statuses ?row =
           (if \<forall>r \<in> set outgate_df. ok_flag r \<noteq> ''HIGH'' then ''NONE''
            else str_join '', '' ?hs)"
    using e by simp
  have l: "terminal_congestion_loaded_flag ?row =
           (case find (\<lambda>r. str_lower (tk_load_type r) = ''loaded'') terminal_df of
              None \<Rightarrow> ''UNKNOWN'' | Some r \<Rightarrow> tk_flag r)"
    by (simp add: flag_for_load_type_find)
  have m: "terminal_congestion_empty_flag ?row =
           (case find (\<lambda>r. str_lower (tk_load_type r) = ''empty'') terminal_df of
              None \<Rightarrow> ''UNKNOWN'' | Some r \<Rightarrow> tk_flag r)"
    by (simp add: flag_for_load_type_find)
  have f: "volume_pressure_flag ?row = wk_flag ?v" "berth_flag ?row = bk_flag b"
    "hs_extraction_ts_utc ?row = ts"
    by simp_all
  show ?thesis
    apply (rule exI[of _ ?row])
    apply (rule exI[of _ ?v])
    using r v o l m f by blast
qed


lemma docks_kpi_rows:
  "docks_kpi =
     [\<lparr>record_type = ''summary'', bk_vessel = None, bk_terminal = PNone,
        bk_time_at_berth_hours = None, avg_time_at_berth_hours = Fin 35, bk_flag = ''HIGH'',
        bk_extraction_ts_utc = sample_ts, bk_from_date = None, bk_to_date = None\<rparr>,
      \<lparr>record_type = ''vessel'', bk_vessel = Some ''Borealis'', bk_terminal = PStr ''T1'',
        bk_time_at_berth_hours = Some 40, avg_time_at_berth_hours = Fin 35, bk_flag = ''HIGH'',
        bk_extraction_ts_utc = sample_ts, bk_from_date = None, bk_to_date = None\<rparr>,
      \<lparr>record_type = ''vessel'', bk_vessel = Some ''Aurora'', bk_terminal = PNone,
        bk_time_at_berth_hours = Some 30, avg_time_at_berth_hours = Fin 35, bk_flag = ''HIGH'',
        bk_extraction_ts_utc = sample_ts, bk_from_date = None, bk_to_date = None\<rparr>]"
  by (simp add: docks_kpi_def build_berth_snapshot_def docks_def series_mean_def head_rows_def
      fge_def tag_def Let_def)

lemma yard_kpi_flags:
  "map (\<lambda>r. (tk_load_type r, tk_flag r)) yard_kpi =
     [(''EMPTY'', ''NORMAL''), (''Loaded'', ''HIGH''), (''Reefer'', ''NORMAL'')]"
  by (simp add: yard_kpi_def yard_groups terminal_group_def series_sum_def wrap64_def
      fdiv_def fge_def str_lower_def lower_char_def)

lemma gate_kpi_flags:
  "map (\<lambda>r. (ok_status r, ok_flag r)) gate_kpi =
     [(''Export'', ''HIGH''), (''Import'', ''NORMAL''), (''Transship'', ''HIGH'')]"
  by (simp add: gate_kpi_def gate_groups outgate_group_def series_sum_def wrap64_def
      fdiv_def fge_def)

lemma find_map_key:
  "(case find (\<lambda>r. P (k r)) xs of None \<Rightarrow> a | Some r \<Rightarrow> f r)
     = (case find (\<lambda>p. P (fst p)) (map (\<lambda>r. (k r, f r)) xs) of None \<Rightarrow> a | Some p \<Rightarrow> snd p)"
  by (induction xs) simp_all

lemma filter_map_key:
  "map k (filter (\<lambda>r. P (f r)) xs) = map fst (filter (\<lambda>p. P (snd p)) (map (\<lambda>r. (k r, f r)) xs))"
  by (induction xs) simp_all

text \<open>On the sample tables: the loaded group is HIGH, the empty group NORMAL, the
  statuses Export and Transship are HIGH, and the berth summary is HIGH.\<close>

theorem C5_health_summary_witness:
  "volume_kpi \<noteq> []
   \<and> find (\<lambda>r. record_type r = ''summary'') docks_kpi = Some (hd docks_kpi)
   \<and> (\<exists>row. build_health_summary volume_kpi yard_kpi gate_kpi docks_kpi sample_ts = Inr [row]
         \<and> terminal_congestion_loaded_flag row = ''HIGH''
         \<and> terminal_congestion_empty_flag row = ''NORMAL''
         \<and> outgate_stress_high_statuses row = ''Export, Transship''
         \<and> berth_flag row = ''HIGH''
         \<and> hs_extraction_ts_utc row = sample_ts)"
proof -
  have h1: "volume_kpi \<noteq> []"
    using length_build_weekly[of two_weeks sample_ts None None "Fin (115 / 100)" "Fin (90 / 100)"]
    by (auto simp: volume_kpi_def two_weeks_def)
  have h2: "find (\<lambda>r. record_type r = ''summary'') docks_kpi = Some (hd docks_kpi)"
    by (simp add: docks_kpi_rows)
  obtain row v where r: "build_health_summary volume_kpi yard_kpi gate_kpi docks_kpi sample_ts = Inr [row]"
    and "v \<in> set volume_kpi"
    and l: "terminal_congestion_loaded_flag row =
           (case find (\<lambda>r. str_lower (tk_load_type r) = ''loaded'') yard_kpi of
              None \<Rightarrow> ''UNKNOWN'' | Some r \<Rightarrow> tk_flag r)"
    and e: "terminal_congestion_empty_flag row =
           (case find (\<lambda>r. str_lower (tk_load_type r) = ''empty'') yard_kpi of
              None \<Rightarrow> ''UNKNOWN'' | Some r \<Rightarrow> tk_flag r)"
    and o: "outgate_stress_high_statuses row =
           (if \<forall>r \<in> set gate_kpi. ok_flag r \<noteq> ''HIGH'' then ''NONE''
            else str_join '', '' (map ok_status (filter (\<lambda>r. ok_flag r = ''HIGH'') gate_kpi)))"
    and b: "berth_flag row = bk_flag (hd docks_kpi)"
    and t: "hs_extraction_ts_utc row = sample_ts"
    using C5_health_summary [OF h1 h2, of yard_kpi gate_kpi sample_ts] by blast
  have l': "terminal_congestion_loaded_flag row = ''HIGH''"
    unfolding l find_map_key[where P = "\<lambda>s. str_lower s = ''loaded''" and k = tk_load_type] yard_kpi_flags
    by (simp add: str_lower_def lower_char_def)
  have e': "terminal_congestion_empty_flag row = ''NORMAL''"
    unfolding e find_map_key[where P = "\<lambda>s. str_lower s = ''empty''" and k = tk_load_type] yard_kpi_flags
    by (simp add: str_lower_def lower_char_def)
  have hs: "map ok_status (filter (\<lambda>r. ok_flag r = ''HIGH'') gate_kpi) = [''Export'', ''Transship'']"
    unfolding filter_map_key[where k = ok_status and P = "\<lambda>f. f = ''HIGH''" and f = ok_flag] gate_kpi_flags by simp
  have ex: "\<not> (\<forall>r \<in> set gate_kpi. ok_flag r \<noteq> ''HIGH'')"
    using hs filter_empty_conv[of "\<lambda>r. ok_flag r = ''HIGH''" gate_kpi] by auto
  have o': "outgate_stress_high_statuses row = ''Export, Transship''"
    unfolding o hs using ex by simp
  have b': "berth_flag row = ''HIGH''"
    unfolding b by (simp add: docks_kpi_rows)
  from h1 h2 r l' e' o' b' t show ?thesis by blast
qed

section \<open>The normalizers\<close>

lemma extract_list_under_key:
  "extract_list (PDict [(''data'', PList items)]) [k, ''data'', ''items''] = Inr items"
  "extract_list (PDict [(''items'', PList items)]) [k, ''data'', ''items''] = Inr items"
  "extract_list (PDict [(''data'', PList items)]) [k, k', ''data'', ''items''] = Inr items"
  "extract_list (PDict [(''items'', PList items)]) [k, k', ''data'', ''items''] = Inr items"
  by simp_all

lemma extract_list_nested:
  "extract_list (PDict [(''data'', PDict [(''items'', PList items)])]) keys
     = Inl (DataShapeError (ExpectedListPayload keys))"
proof -
  have "first_list [(''data'', PDict [(''items'', PList items)])] ks = None" for ks
    by (induction ks) simp_all
  then show ?thesis by simp
qed

text \<open>
  C2, as stated, fails: under \<open>{"data": {"items": [...]}}\<close> the value of \<open>data\<close> is a
  mapping, not a list, and \<open>items\<close> is no top-level key, so the nested payload raises
  while the bare list of the same items normalizes.
\<close>

theorem C2_nested_payload_counterexample:
  "parse_weekly_volumes sample_lib (PList week_items)
     = Inr [\<lparr>week_start_date = (2024, 1, 1), inbound_full_containers = 100\<rparr>,
            \<lparr>week_start_date = (2024, 1, 8), inbound_full_containers = 140\<rparr>]
   \<and> parse_weekly_volumes sample_lib (PDict [(''data'', PDict [(''items'', PList week_items)])])
     = Inl (DataShapeError (ExpectedListPayload weekly_list_keys))"
  by (simp add: parse_weekly_volumes_def and_then_def week_items_def weekly_item_def
      get_required_key_def raised_def coerce_column_def as_column_def sample_lib_def)

text \<open>
  C2, amended. For every list of items and each of the four normalizers, a payload that
  holds the list directly under the top-level key \<open>data\<close> (or \<open>items\<close>) normalizes to the
  same result as the bare list: the same canonical dataset or the same error. The
  nested payload \<open>{"data": {"items": [...]}}\<close> raises the ShapeError of
  \<open>_extract_list\<close> in all four.
\<close>

theorem C2_wrapped_payload:
  "parse_weekly_volumes l (PDict [(''data'', PList items)]) = parse_weekly_volumes l (PList items)
   \<and> parse_terminal_containers l (PDict [(''data'', PList items)])
       = parse_terminal_containers l (PList items)
   \<and> parse_outgate_metrics l (PDict [(''data'', PList items)])
       = parse_outgate_metrics l (PList items)
   \<and> parse_berth_data l (PDict [(''data'', PList items)]) = parse_berth_data l (PList items)
   \<and> parse_weekly_volumes l (PDict [(''items'', PList items)]) = parse_weekly_volumes l (PList items)
   \<and> parse_terminal_containers l (PDict [(''items'', PList items)])
       = parse_terminal_containers l (PList items)
   \<and> parse_outgate_metrics l (PDict [(''items'', PList items)])
       = parse_outgate_metrics l (PList items)
   \<and> parse_berth_data l (PDict [(''items'', PList items)]) = parse_berth_data l (PList items)
   \<and> parse_weekly_volumes l (PDict [(''data'', PDict [(''items'', PList items)])])
       = Inl (DataShapeError (ExpectedListPayload weekly_list_keys))
   \<and> parse_terminal_containers l (PDict [(''data'', PDict [(''items'', PList items)])])
       = Inl (DataShapeError (ExpectedListPayload terminal_list_keys))
   \<and> parse_outgate_metrics l (PDict [(''data'', PDict [(''items'', PList items)])])
       = Inl (DataShapeError (ExpectedListPayload outgate_list_keys))
   \<and> parse_berth_data l (PDict [(''data'', PDict [(''items'', PList items)])])
       = Inl (DataShapeError (ExpectedListPayload berth_list_keys))"
proof -
  have w: "parse_weekly_volumes l p = parse_weekly_volumes l q"
    if "extract_list p weekly_list_keys = extract_list q weekly_list_keys" for p q
    using that by (simp add: parse_weekly_volumes_def)
  have t: "parse_terminal_containers l p = parse_terminal_containers l q"
    if "extract_list p terminal_list_keys = extract_list q terminal_list_keys" for p q
    using that by (simp add: parse_terminal_containers_def)
  have g: "parse_outgate_metrics l p = parse_outgate_metrics l q"
    if "extract_list p outgate_list_keys = extract_list q outgate_list_keys" for p q
    using that by (simp add: parse_outgate_metrics_def)
  have b: "parse_berth_data l p = parse_berth_data l q"
    if "extract_list p berth_list_keys = extract_list q berth_list_keys" for p q
    using that by (simp add: parse_berth_data_def)
  have n: "parse_weekly_volumes l (PDict [(''data'', PDict [(''items'', PList items)])])
       = Inl (DataShapeError (ExpectedListPayload weekly_list_keys))"
    "parse_terminal_containers l (PDict [(''data'', PDict [(''items'', PList items)])])
       = Inl (DataShapeError (ExpectedListPayload terminal_list_keys))"
    "parse_outgate_metrics l (PDict [(''data'', PDict [(''items'', PList items)])])
       = Inl (DataShapeError (ExpectedListPayload outgate_list_keys))"
    "parse_berth_data l (PDict [(''data'', PDict [(''items'', PList items)])])
       = Inl (DataShapeError (ExpectedListPayload berth_list_keys))"
    unfolding parse_weekly_volumes_def parse_terminal_containers_def parse_outgate_metrics_def
      parse_berth_data_def extract_list_nested
    by (simp_all add: and_then_def)
  show ?thesis
    by (intro conjI w t g b n) simp_all
qed


text \<open>The wrapped sample payload gives the two sample weeks, as the bare list does.\<close>

theorem C2_wrapped_payload_witness:
  "parse_weekly_volumes sample_lib (PDict [(''data'', PList week_items)])
     = Inr [\<lparr>week_start_date = (2024, 1, 1), inbound_full_containers = 100\<rparr>,
            \<lparr>week_start_date = (2024, 1, 8), inbound_full_containers = 140\<rparr>]"
proof -
  have "parse_weekly_volumes sample_lib (PList week_items)
     = Inr [\<lparr>week_start_date = (2024, 1, 1), inbound_full_containers = 100\<rparr>,
            \<lparr>week_start_date = (2024, 1, 8), inbound_full_containers = 140\<rparr>]"
    by (simp add: parse_weekly_volumes_def and_then_def week_items_def weekly_item_def
        get_required_key_def raised_def coerce_column_def as_column_def sample_lib_def)
  then show ?thesis
    using C2_wrapped_payload [of sample_lib week_items] by simp
qed

lemma probe_keys_missing:
  "list_all (\<lambda>k. map_of item k = None \<or> map_of item k = Some PNone) ks \<Longrightarrow>
   probe_keys (PDict item) all_keys ks
     = Inl (DataShapeError (MissingRequiredKeys all_keys (PDict item)))"
  by (induction ks) (auto simp: and_then_def)

lemma get_required_key_missing:
  "missing item keys \<Longrightarrow>
   get_required_key (PDict item) keys = Inl (DataShapeError (MissingRequiredKeys keys (PDict item)))"
  unfolding missing_def get_required_key_def by (rule probe_keys_missing)

lemma collect_rows_first_failure:
  assumes "\<forall>it \<in> set pre. \<exists>row. f it = Inr row" and "f bad = Inl e"
  shows "collect_rows f (pre @ bad # post) = Inl e"
  using assms by (induction pre) (auto simp: and_then_def)

text \<open>
  C4. When none of the aliases of a required field is present in an item with a
  non-null value, \<open>_get_required_key\<close> raises the ShapeError that carries the whole
  alias list and the item. In each normalizer that is the result for an item whose
  required field is missing, once the lookups the normalizer makes before it on the
  same item have resolved. Each normalizer returns the error of the first item that
  raises: the items before it raised nothing, and the result does not depend on the
  items after it.
\<close>

theorem C4_missing_required_key:
  "(missing item keys \<longrightarrow>
      get_required_key (PDict item) keys
        = Inl (DataShapeError (MissingRequiredKeys keys (PDict item))))
   \<and> (missing item week_start_keys \<longrightarrow>
      weekly_item l (PDict item)
        = Inl (DataShapeError (MissingRequiredKeys week_start_keys (PDict item))))
   \<and> (missing item load_type_keys \<longrightarrow>
      terminal_item (PDict item)
        = Inl (DataShapeError (MissingRequiredKeys load_type_keys (PDict item))))
   \<and> (missing item status_keys \<longrightarrow>
      outgate_item (PDict item)
        = Inl (DataShapeError (MissingRequiredKeys status_keys (PDict item))))
   \<and> (missing item vessel_keys \<longrightarrow>
      berth_item (PDict item)
        = Inl (DataShapeError (MissingRequiredKeys vessel_keys (PDict item))))
   \<and> (missing item containers_keys
        \<and> (\<exists>a. and_then (get_required_key (PDict item) load_type_keys) strip = Inr a)
        \<and> (\<exists>b. and_then (get_required_key (PDict item) bucket_keys) strip = Inr b) \<longrightarrow>
      terminal_item (PDict item)
        = Inl (DataShapeError (MissingRequiredKeys containers_keys (PDict item))))
   \<and> ((\<forall>it \<in> set pre. \<exists>row. weekly_item l it = Inr row) \<and> weekly_item l bad = Inl e \<longrightarrow>
      parse_weekly_volumes l (PList (pre @ bad # post)) = Inl e)
   \<and> ((\<forall>it \<in> set pre. \<exists>row. terminal_item it = Inr row) \<and> terminal_item bad = Inl e \<longrightarrow>
      parse_terminal_containers l (PList (pre @ bad # post)) = Inl e)
   \<and> ((\<forall>it \<in> set pre. \<exists>row. outgate_item it = Inr row) \<and> outgate_item bad = Inl e \<longrightarrow>
      parse_outgate_metrics l (PList (pre @ bad # post)) = Inl e)
   \<and> ((\<forall>it \<in> set pre. \<exists>row. berth_item it = Inr row) \<and> berth_item bad = Inl e \<longrightarrow>
      parse_berth_data l (PList (pre @ bad # post)) = Inl e)
   \<and> (missing item inbound_full_keys
        \<and> (\<exists>v d. get_required_key (PDict item) week_start_keys = Inr v
                \<and> parse_date l v = Inr d) \<longrightarrow>
      weekly_item l (PDict item)
        = Inl (DataShapeError (MissingRequiredKeys inbound_full_keys (PDict item))))
   \<and> (missing item bucket_keys
        \<and> (\<exists>a. and_then (get_required_key (PDict item) load_type_keys) strip = Inr a) \<longrightarrow>
      terminal_item (PDict item)
        = Inl (DataShapeError (MissingRequiredKeys bucket_keys (PDict item))))
   \<and> (missing item bucket_keys
        \<and> (\<exists>a. and_then (get_required_key (PDict item) status_keys) strip = Inr a) \<longrightarrow>
      outgate_item (PDict item)
        = Inl (DataShapeError (MissingRequiredKeys bucket_keys (PDict item))))
   \<and> (missing item containers_keys
        \<and> (\<exists>a. and_then (get_required_key (PDict item) status_keys) strip = Inr a)
        \<and> (\<exists>b. and_then (get_required_key (PDict item) bucket_keys) strip = Inr b) \<longrightarrow>
      outgate_item (PDict item)
        = Inl (DataShapeError (MissingRequiredKeys containers_keys (PDict item))))
   \<and> (missing item hours_keys
        \<and> (\<exists>a. and_then (get_required_key (PDict item) vessel_keys) strip = Inr a) \<longrightarrow>
      berth_item (PDict item)
        = Inl (DataShapeError (MissingRequiredKeys hours_keys (PDict item))))"
proof (intro conjI impI)
  assume "missing item keys"
  then show "get_required_key (PDict item) keys
        = Inl (DataShapeError (MissingRequiredKeys keys (PDict item)))"
    by (rule get_required_key_missing)
next
  assume "missing item week_start_keys"
  then show "weekly_item l (PDict item)
        = Inl (DataShapeError (MissingRequiredKeys week_start_keys (PDict item)))"
    by (simp add: weekly_item_def get_required_key_missing and_then_def)
next
  assume "missing item load_type_keys"
  then show "terminal_item (PDict item)
        = Inl (DataShapeError (MissingRequiredKeys load_type_keys (PDict item)))"
    by (simp add: terminal_item_def get_required_key_missing and_then_def)
next
  assume "missing item status_keys"
  then show "outgate_item (PDict item)
        = Inl (DataShapeError (MissingRequiredKeys status_keys (PDict item)))"
    by (simp add: outgate_item_def get_required_key_missing and_then_def)
next
  assume "missing item vessel_keys"
  then show "berth_item (PDict item)
        = Inl (DataShapeError (MissingRequiredKeys vessel_keys (PDict item)))"
    by (simp add: berth_item_def get_required_key_missing and_then_def)
next
  assume a: "missing item containers_keys
        \<and> (\<exists>a. and_then (get_required_key (PDict item) load_type_keys) strip = Inr a)
        \<and> (\<exists>b. and_then (get_required_key (PDict item) bucket_keys) strip = Inr b)"
  then obtain x y where x: "and_then (get_required_key (PDict item) load_type_keys) strip = Inr x"
    and y: "and_then (get_required_key (PDict item) bucket_keys) strip = Inr y"
    by blast
  from a have m: "get_required_key (PDict item) containers_keys
        = Inl (DataShapeError (MissingRequiredKeys containers_keys (PDict item)))"
    by (simp add: get_required_key_missing)
  show "terminal_item (PDict item)
        = Inl (DataShapeError (MissingRequiredKeys containers_keys (PDict item)))"
    unfolding terminal_item_def x y m by (simp add: and_then_def)
next
  assume "(\<forall>it \<in> set pre. \<exists>row. weekly_item l it = Inr row) \<and> weekly_item l bad = Inl e"
  then have "collect_rows (weekly_item l) (pre @ bad # post) = Inl e"
    by (simp add: collect_rows_first_failure)
  then show "parse_weekly_volumes l (PList (pre @ bad # post)) = Inl e"
    by (simp add: parse_weekly_volumes_def and_then_def)
next
  assume "(\<forall>it \<in> set pre. \<exists>row. terminal_item it = Inr row) \<and> terminal_item bad = Inl e"
  then have "collect_rows terminal_item (pre @ bad # post) = Inl e"
    by (simp add: collect_rows_first_failure)
  then show "parse_terminal_containers l (PList (pre @ bad # post)) = Inl e"
    by (simp add: parse_terminal_containers_def and_then_def)
next
  assume "(\<forall>it \<in> set pre. \<exists>row. outgate_item it = Inr row) \<and> outgate_item bad = Inl e"
  then have "collect_rows outgate_item (pre @ bad # post) = Inl e"
    by (simp add: collect_rows_first_failure)
  then show "parse_outgate_metrics l (PList (pre @ bad # post)) = Inl e"
    by (simp add: parse_outgate_metrics_def and_then_def)
next
  assume "(\<forall>it \<in> set pre. \<exists>row. berth_item it = Inr row) \<and> berth_item bad = Inl e"
  then have "collect_rows berth_item (pre @ bad # post) = Inl e"
    by (simp add: collect_rows_first_failure)
  then show "parse_berth_data l (PList (pre @ bad # post)) = Inl e"
    by (simp add: parse_berth_data_def and_then_def)
next
  assume a: "missing item inbound_full_keys
        \<and> (\<exists>v d. get_required_key (PDict item) week_start_keys = Inr v
                \<and> parse_date l v = Inr d)"
  then obtain v d where v: "get_required_key (PDict item) week_start_keys = Inr v"
    and d: "parse_date l v = Inr d"
    by blast
  from a have m: "get_required_key (PDict item) inbound_full_keys
        = Inl (DataShapeError (MissingRequiredKeys inbound_full_keys (PDict item)))"
    by (simp add: get_required_key_missing)
  show "weekly_item l (PDict item)
        = Inl (DataShapeError (MissingRequiredKeys inbound_full_keys (PDict item)))"
    unfolding weekly_item_def v m by (simp add: and_then_def d)
next
  assume a: "missing item bucket_keys
        \<and> (\<exists>a. and_then (get_required_key (PDict item) load_type_keys) strip = Inr a)"
  then obtain x where x: "and_then (get_required_key (PDict item) load_type_keys) strip = Inr x"
    by blast
  from a have m: "get_required_key (PDict item) bucket_keys
        = Inl (DataShapeError (MissingRequiredKeys bucket_keys (PDict item)))"
    by (simp add: get_required_key_missing)
  show "terminal_item (PDict item)
        = Inl (DataShapeError (MissingRequiredKeys bucket_keys (PDict item)))"
    unfolding terminal_item_def x m by (simp add: and_then_def)
next
  assume a: "missing item bucket_keys
        \<and> (\<exists>a. and_then (get_required_key (PDict item) status_keys) strip = Inr a)"
  then obtain x where x: "and_then (get_required_key (PDict item) status_keys) strip = Inr x"
    by blast
  from a have m: "get_required_key (PDict item) bucket_keys
        = Inl (DataShapeError (MissingRequiredKeys bucket_keys (PDict item)))"
    by (simp add: get_required_key_missing)
  show "outgate_item (PDict item)
        = Inl (DataShapeError (MissingRequiredKeys bucket_keys (PDict item)))"
    unfolding outgate_item_def x m by (simp add: and_then_def)
next
  assume a: "missing item containers_keys
        \<and> (\<exists>a. and_then (get_required_key (PDict item) status_keys) strip = Inr a)
        \<and> (\<exists>b. and_then (get_required_key (PDict item) bucket_keys) strip = Inr b)"
  then obtain x y where x: "and_then (get_required_key (PDict item) status_keys) strip = Inr x"
    and y: "and_then (get_required_key (PDict item) bucket_keys) strip = Inr y"
    by blast
  from a have m: "get_required_key (PDict item) containers_keys
        = Inl (DataShapeError (MissingRequiredKeys containers_keys (PDict item)))"
    by (simp add: get_required_key_missing)
  show "outgate_item (PDict item)
        = Inl (DataShapeError (MissingRequiredKeys containers_keys (PDict item)))"
    unfolding outgate_item_def x y m by (simp add: and_then_def)
next
  assume a: "missing item hours_keys
        \<and> (\<exists>a. and_then (get_required_key (PDict item) vessel_keys) strip = Inr a)"
  then obtain x where x: "and_then (get_required_key (PDict item) vessel_keys) strip = Inr x"
    by blast
  from a have m: "get_required_key (PDict item) hours_keys
        = Inl (DataShapeError (MissingRequiredKeys hours_keys (PDict item)))"
    by (simp add: get_required_key_missing)
  show "berth_item (PDict item)
        = Inl (DataShapeError (MissingRequiredKeys hours_keys (PDict item)))"
    unfolding berth_item_def x m by (simp add: and_then_def)
qed

lemma yard_items_rows:
  "map terminal_item yard_items =
     [Inr (''Loaded'', ''13+ Days'', PInt 30), Inr (''Loaded'', ''0-4 Days'', PInt 70)]"
  by (simp add: yard_items_def terminal_item_def get_required_key_def and_then_def
      str_strip_def is_space_def)

text \<open>After the two sample items, an item without a container count raises the error
  naming the four aliases; the integer that follows it in the list is never examined.\<close>

theorem C4_missing_required_key_witness:
  "missing uncounted containers_keys
   \<and> map terminal_item yard_items =
       [Inr (''Loaded'', ''13+ Days'', PInt 30), Inr (''Loaded'', ''0-4 Days'', PInt 70)]
   \<and> terminal_item (PDict uncounted)
       = Inl (DataShapeError (MissingRequiredKeys containers_keys (PDict uncounted)))
   \<and> parse_terminal_containers sample_lib (PList (yard_items @ PDict uncounted # [PInt 7]))
       = Inl (DataShapeError (MissingRequiredKeys containers_keys (PDict uncounted)))"
proof -
  note C = C4_missing_required_key [of uncounted containers_keys sample_lib yard_items
      "PDict uncounted" "DataShapeError (MissingRequiredKeys containers_keys (PDict uncounted))"
      "[PInt 7]"]
  have m: "missing uncounted containers_keys"
    by (simp add: missing_def uncounted_def)
  have a: "and_then (get_required_key (PDict uncounted) load_type_keys) strip = Inr ''Empty''"
    by (simp add: uncounted_def get_required_key_def and_then_def str_strip_def is_space_def)
  have b: "and_then (get_required_key (PDict uncounted) bucket_keys) strip = Inr ''0-4 Days''"
    by (simp add: uncounted_def get_required_key_def and_then_def str_strip_def is_space_def)
  have i: "terminal_item (PDict uncounted)
       = Inl (DataShapeError (MissingRequiredKeys containers_keys (PDict uncounted)))"
  proof -
    have a': "\<exists>a. and_then (get_required_key (PDict uncounted) load_type_keys) strip = Inr a"
      using a by (rule exI)
    have b': "\<exists>b. and_then (get_required_key (PDict uncounted) bucket_keys) strip = Inr b"
      using b by (rule exI)
    show ?thesis
      by (rule C [THEN conjunct2, THEN conjunct2, THEN conjunct2, THEN conjunct2,
            THEN conjunct2, THEN conjunct1, THEN mp, OF conjI [OF m conjI [OF a' b']]])
  qed
  have pre: "\<forall>it \<in> set yard_items. \<exists>row. terminal_item it = Inr row"
  proof
    fix it assume "it \<in> set yard_items"
    then have "terminal_item it \<in> set (map terminal_item yard_items)" by simp
    then show "\<exists>row. terminal_item it = Inr row" unfolding yard_items_rows by auto
  qed
  have p: "parse_terminal_containers sample_lib (PList (yard_items @ PDict uncounted # [PInt 7]))
       = Inl (DataShapeError (MissingRequiredKeys containers_keys (PDict uncounted)))"
    by (rule C [THEN conjunct2, THEN conjunct2, THEN conjunct2, THEN conjunct2, THEN conjunct2,
          THEN conjunct2, THEN conjunct2, THEN conjunct1, THEN mp, OF conjI [OF pre i]])
  from m yard_items_rows i p show ?thesis by blast
qed

text \<open>
  C8. \<open>_parse_date\<close> returns the date of a datetime, and raises the ShapeError for a
  value that is neither a datetime, a number nor a string. For a string the library
  cannot parse it raises nothing of its own: the parser's exception leaves the
  function as it is, and that is not the ShapeError. The same holds for a number the
  library rejects.
\<close>

theorem C8_unparseable_string:
  assumes "to_datetime l s = Inl x"
  shows "parse_date l (PStr s) = Inl (Raised x)
       \<and> (\<forall>m. parse_date l (PStr s) \<noteq> Inl (DataShapeError m))
       \<and> parse_date l (PDatetime v) = Inr (date_of v)
       \<and> parse_date l PNone = Inl (DataShapeError (UnableToParseDate PNone))
       \<and> parse_date l (PList xs) = Inl (DataShapeError (UnableToParseDate (PList xs)))
       \<and> parse_date l (PDict kvs) = Inl (DataShapeError (UnableToParseDate (PDict kvs)))"
  using assms by (simp add: raised_def)

theorem C8_unparseable_string_witness:
  "to_datetime sample_lib ''not a date'' = Inl (LibExc ''DateParseError'')
   \<and> parse_date sample_lib (PStr ''not a date'') = Inl (Raised (LibExc ''DateParseError''))"
proof -
  have h: "to_datetime sample_lib ''not a date'' = Inl (LibExc ''DateParseError'')"
    by (simp add: sample_lib_def)
  from h C8_unparseable_string [OF h] show ?thesis by blast
qed

section \<open>The pipeline run\<close>

lemma build_weekly_tags:
  assumes "r \<in> set (build_weekly_volume_pressure weekly_df ts fd td hi lo)"
  shows "wk_extraction_ts_utc r = ts \<and> wk_from_date r = tag fd \<and> wk_to_date r = tag td"
proof -
  from assms obtain i where "i < length weekly_df"
    and "r = build_weekly_volume_pressure weekly_df ts fd td hi lo ! i"
    by (auto simp: in_set_conv_nth length_build_weekly)
  then show ?thesis by (simp add: build_weekly_nth Let_def)
qed

lemma build_terminal_tags:
  assumes "build_terminal_congestion df ts fd td cb lh eh = Inr rows" and "r \<in> set rows"
  shows "tk_extraction_ts_utc r = ts \<and> tk_from_date r = tag fd \<and> tk_to_date r = tag td"
  using assms by (auto simp: build_terminal_congestion_Inr terminal_group_fields)

lemma build_outgate_tags:
  assumes "build_outgate_stress_by_status df ts fd td sb sh = Inr rows" and "r \<in> set rows"
  shows "ok_extraction_ts_utc r = ts \<and> ok_from_date r = tag fd \<and> ok_to_date r = tag td"
  using assms by (auto simp: build_outgate_stress_Inr outgate_group_fields)

lemma build_berth_tags:
  assumes "r \<in> set (build_berth_snapshot df ts fd td h n)"
  shows "bk_extraction_ts_utc r = ts \<and> bk_from_date r = tag fd \<and> bk_to_date r = tag td"
  using assms by (auto simp: build_berth_snapshot_def Let_def)

lemma build_health_tag:
  assumes "build_health_summary v t g b ts = Inr rows" and "r \<in> set rows"
  shows "hs_extraction_ts_utc r = ts"
  using assms
  by (auto simp: build_health_summary_def Let_def split: list.splits)

lemma opt_col_lookup:
  "map_of (opt_col name v) k = (if k = name then map_option CStr v else None)"
  by (cases v) (simp_all add: opt_col_def)

lemma weekly_columns_tags:
  "map_of (weekly_columns r) ''extraction_ts_utc'' = Some (CTimestamp (wk_extraction_ts_utc r))"
  "map_of (weekly_columns r) ''from_date'' = map_option CStr (wk_from_date r)"
  "map_of (weekly_columns r) ''to_date'' = map_option CStr (wk_to_date r)"
  by (simp_all add: weekly_columns_def map_add_def opt_col_lookup split: option.splits)

lemma terminal_columns_tags:
  "map_of (terminal_columns r) ''extraction_ts_utc'' = Some (CTimestamp (tk_extraction_ts_utc r))"
  "map_of (terminal_columns r) ''from_date'' = map_option CStr (tk_from_date r)"
  "map_of (terminal_columns r) ''to_date'' = map_option CStr (tk_to_date r)"
  by (simp_all add: terminal_columns_def map_add_def opt_col_lookup split: option.splits)

lemma outgate_columns_tags:
  "map_of (outgate_columns r) ''extraction_ts_utc'' = Some (CTimestamp (ok_extraction_ts_utc r))"
  "map_of (outgate_columns r) ''from_date'' = map_option CStr (ok_from_date r)"
  "map_of (outgate_columns r) ''to_date'' = map_option CStr (ok_to_date r)"
  by (simp_all add: outgate_columns_def map_add_def opt_col_lookup split: option.splits)

lemma berth_columns_tags:
  "map_of (berth_columns r) ''extraction_ts_utc'' = Some (CTimestamp (bk_extraction_ts_utc r))"
  "map_of (berth_columns r) ''from_date'' = map_option CStr (bk_from_date r)"
  "map_of (berth_columns r) ''to_date'' = map_option CStr (bk_to_date r)"
  by (simp_all add: berth_columns_def map_add_def opt_col_lookup split: option.splits)

lemma health_columns_tags:
  "map_of (health_columns r) ''extraction_ts_utc'' = Some (CTimestamp (hs_extraction_ts_utc r))"
  "map_of (health_columns r) ''from_date'' = None"
  "map_of (health_columns r) ''to_date'' = None"
  by (simp_all add: health_columns_def)

lemma and_then_Inr:
  "and_then x f = Inr y \<longleftrightarrow> (\<exists>v. x = Inr v \<and> f v = Inr y)"
  by (cases x) (simp_all add: and_then_def)

lemma run_pipeline_Inr:
  assumes "run_pipeline l cfg ts wp tp gp bp = Inr tables"
  obtains weekly_df kpi_terminal terminal_df kpi_outgate outgate_df berth_df kpi_health where
    "tables =
       [(''kpi_weekly_volume_pressure'', map weekly_columns
           (build_weekly_volume_pressure weekly_df ts (from_date cfg) (to_date cfg)
              (volume_pressure_high cfg) (volume_pressure_low cfg))),
        (''kpi_terminal_congestion'', map terminal_columns kpi_terminal),
        (''kpi_outgate_stress_by_status'', map outgate_columns kpi_outgate),
        (''kpi_berth_snapshot'', map berth_columns
           (build_berth_snapshot berth_df ts (from_date cfg) (to_date cfg)
              (berth_high_hours cfg) (berth_top_n cfg))),
        (''kpi_health_summary'', map health_columns kpi_health)]"
    "build_terminal_congestion terminal_df ts (from_date cfg) (to_date cfg) (congested_buckets cfg)
       (terminal_loaded_high cfg) (terminal_empty_high cfg) = Inr kpi_terminal"
    "build_outgate_stress_by_status outgate_df ts (from_date cfg) (to_date cfg)
       (slow_outgate_buckets cfg) (outgate_slow_high cfg) = Inr kpi_outgate"
    "build_health_summary
       (build_weekly_volume_pressure weekly_df ts (from_date cfg) (to_date cfg)
              (volume_pressure_high cfg) (volume_pressure_low cfg))
       kpi_terminal kpi_outgate
       (build_berth_snapshot berth_df ts (from_date cfg) (to_date cfg)
              (berth_high_hours cfg) (berth_top_n cfg)) ts = Inr kpi_health"
  using assms unfolding run_pipeline_def and_then_Inr Let_def by force


lemma sample_run:
  "run_pipeline sample_lib january_settings sample_ts
       (PList week_items) (PList yard_items) (PList gate_items) (PList dock_items)
     = Inr [(''kpi_weekly_volume_pressure'',
             [[(''week_start_date'', CDate (2024, 1, 1)),
               (''inbound_full_containers'', CNum (Fin 100)),
               (''rolling_4w_avg_teu'', CNum (Fin 100)),
               (''volume_pressure_index'', CNum (Fin 1)),
               (''flag'', CStr ''NORMAL''),
               (''extraction_ts_utc'', CTimestamp sample_ts),
               (''from_date'', CStr ''2024-01-01''),
               (''to_date'', CStr ''2024-01-31'')],
              [(''week_start_date'', CDate (2024, 1, 8)),
               (''inbound_full_containers'', CNum (Fin 140)),
               (''rolling_4w_avg_teu'', CNum (Fin 120)),
               (''volume_pressure_index'', CNum (Fin (7 / 6))),
               (''flag'', CStr ''HIGH''),
               (''extraction_ts_utc'', CTimestamp sample_ts),
               (''from_date'', CStr ''2024-01-01''),
               (''to_date'', CStr ''2024-01-31'')]]),
            (''kpi_terminal_congestion'',
             [[(''load_type'', CStr ''Loaded''),
               (''total_containers'', CNum (Fin 100)),
               (''congested_containers'', CNum (Fin 30)),
               (''congested_pct'', CNum (Fin (3 / 10))),
               (''flag'', CStr ''HIGH''),
               (''extraction_ts_utc'', CTimestamp sample_ts),
               (''from_date'', CStr ''2024-01-01''),
               (''to_date'', CStr ''2024-01-31'')]]),
            (''kpi_outgate_stress_by_status'',
             [[(''status'', CStr ''Export''),
               (''total_containers'', CNum (Fin 6)),
               (''slow_containers'', CNum (Fin 6)),
               (''slow_pct'', CNum (Fin 1)),
               (''flag'', CStr ''HIGH''),
               (''extraction_ts_utc'', CTimestamp sample_ts),
               (''from_date'', CStr ''2024-01-01''),
               (''to_date'', CStr ''2024-01-31'')]]),
            (''kpi_berth_snapshot'',
             [[(''record_type'', CStr ''summary''),
               (''vessel'', CNull),
               (''terminal'', CVal PNone),
               (''time_at_berth_hours'', CNull),
               (''avg_time_at_berth_hours'', CNum (Fin 30)),
               (''flag'', CStr ''HIGH''),
               (''extraction_ts_utc'', CTimestamp sample_ts),
               (''from_date'', CStr ''2024-01-01''),
               (''to_date'', CStr ''2024-01-31'')],
              [(''record_type'', CStr ''vessel''),
               (''vessel'', CStr ''Aurora''),
               (''terminal'', CVal (PStr ''T1'')),
               (''time_at_berth_hours'', CNum (Fin 30)),
               (''avg_time_at_berth_hours'', CNum (Fin 30)),
               (''flag'', CStr ''HIGH''),
               (''extraction_ts_utc'', CTimestamp sample_ts),
               (''from_date'', CStr ''2024-01-01''),
               (''to_date'', CStr ''2024-01-31'')]]),
            (''kpi_health_summary'',
             [[(''volume_pressure_flag'', CStr ''HIGH''),
               (''terminal_congestion_loaded_flag'', CStr ''HIGH''),
               (''terminal_congestion_empty_flag'', CStr ''UNKNOWN''),
               (''outgate_stress_high_statuses'', CStr ''Export''),
               (''berth_flag'', CStr ''HIGH''),
               (''extraction_ts_utc'', CTimestamp sample_ts)]])]"
proof -
  have w: "parse_weekly_volumes sample_lib (PList week_items) = Inr two_weeks"
    by (simp add: parse_weekly_volumes_def and_then_def week_items_def weekly_item_def
        get_required_key_def raised_def coerce_column_def as_column_def sample_lib_def two_weeks_def)
  have t: "parse_terminal_containers sample_lib (PList yard_items)
       = Inr [\<lparr>load_type = ''Loaded'', tc_bucket = ''13+ Days'', tc_containers = I64 30\<rparr>,
              \<lparr>load_type = ''Loaded'', tc_bucket = ''0-4 Days'', tc_containers = I64 70\<rparr>]"
    by (simp add: parse_terminal_containers_def and_then_def yard_items_def terminal_item_def
        get_required_key_def coerce_column_def as_column_def sample_lib_def str_strip_def is_space_def)
  have g: "parse_outgate_metrics sample_lib (PList gate_items)
       = Inr [\<lparr>status = ''Export'', og_bucket = ''5-8 Days'', og_containers = I64 6\<rparr>]"
    by (simp add: parse_outgate_metrics_def and_then_def gate_items_def outgate_item_def
        get_required_key_def coerce_column_def as_column_def sample_lib_def str_strip_def is_space_def)
  have b: "parse_berth_data sample_lib (PList dock_items)
       = Inr [\<lparr>vessel = ''Aurora'', time_at_berth_hours = 30, terminal = PStr ''T1''\<rparr>]"
    by (simp add: parse_berth_data_def and_then_def dock_items_def berth_item_def
        get_required_key_def coerce_column_def as_column_def sample_lib_def str_strip_def is_space_def)
  have kw: "build_weekly_volume_pressure two_weeks sample_ts (Some ''2024-01-01'')
        (Some ''2024-01-31'') (Fin (115 / 100)) (Fin (90 / 100))
      = [\<lparr>wk_week_start_date = (2024, 1, 1), wk_inbound_full_containers = 100,
           rolling_4w_avg_teu = 100, volume_pressure_index = Fin 1, wk_flag = ''NORMAL'',
           wk_extraction_ts_utc = sample_ts, wk_from_date = Some ''2024-01-01'',
           wk_to_date = Some ''2024-01-31''\<rparr>,
         \<lparr>wk_week_start_date = (2024, 1, 8), wk_inbound_full_containers = 140,
           rolling_4w_avg_teu = 120, volume_pressure_index = Fin (7 / 6), wk_flag = ''HIGH'',
           wk_extraction_ts_utc = sample_ts, wk_from_date = Some ''2024-01-01'',
           wk_to_date = Some ''2024-01-31''\<rparr>]"
    by (simp add: build_weekly_volume_pressure_def two_weeks_def rolling_mean_def
        set_flag_where_def fdiv_def fge_def tag_def)
  have kt: "build_terminal_congestion
        [\<lparr>load_type = ''Loaded'', tc_bucket = ''13+ Days'', tc_containers = I64 30\<rparr>,
         \<lparr>load_type = ''Loaded'', tc_bucket = ''0-4 Days'', tc_containers = I64 70\<rparr>]
        sample_ts (Some ''2024-01-01'') (Some ''2024-01-31'') [''9-12 Days'', ''13+ Days'']
        (Fin (25 / 100)) (Fin (50 / 100))
      = Inr [\<lparr>tk_load_type = ''Loaded'', tk_total_containers = 100, congested_containers = 30,
               congested_pct = Fin (3 / 10), tk_flag = ''HIGH'', tk_extraction_ts_utc = sample_ts,
               tk_from_date = Some ''2024-01-01'', tk_to_date = Some ''2024-01-31''\<rparr>]"
    by (simp add: build_terminal_congestion_def groupby_def terminal_group_def series_sum_def
        wrap64_def fdiv_def fge_def tag_def str_lower_def lower_char_def)
  have kg: "build_outgate_stress_by_status
        [\<lparr>status = ''Export'', og_bucket = ''5-8 Days'', og_containers = I64 6\<rparr>]
        sample_ts (Some ''2024-01-01'') (Some ''2024-01-31'')
        [''5-8 Days'', ''9-12 Days'', ''13+ Days''] (Fin (40 / 100))
      = Inr [\<lparr>ok_status = ''Export'', ok_total_containers = 6, slow_containers = 6,
               slow_pct = Fin 1, ok_flag = ''HIGH'', ok_extraction_ts_utc = sample_ts,
               ok_from_date = Some ''2024-01-01'', ok_to_date = Some ''2024-01-31''\<rparr>]"
    by (simp add: build_outgate_stress_by_status_def groupby_def outgate_group_def
        series_sum_def wrap64_def fdiv_def fge_def tag_def)
  have kb: "build_berth_snapshot
        [\<lparr>vessel = ''Aurora'', time_at_berth_hours = 30, terminal = PStr ''T1''\<rparr>]
        sample_ts (Some ''2024-01-01'') (Some ''2024-01-31'') (Fin 24) 5
      = [\<lparr>record_type = ''summary'', bk_vessel = None, bk_terminal = PNone,
           bk_time_at_berth_hours = None, avg_time_at_berth_hours = Fin 30, bk_flag = ''HIGH'',
           bk_extraction_ts_utc = sample_ts, bk_from_date = Some ''2024-01-01'',
           bk_to_date = Some ''2024-01-31''\<rparr>,
         \<lparr>record_type = ''vessel'', bk_vessel = Some ''Aurora'', bk_terminal = PStr ''T1'',
           bk_time_at_berth_hours = Some 30, avg_time_at_berth_hours = Fin 30, bk_flag = ''HIGH'',
           bk_extraction_ts_utc = sample_ts, bk_from_date = Some ''2024-01-01'',
           bk_to_date = Some ''2024-01-31''\<rparr>]"
    by (simp add: build_berth_snapshot_def series_mean_def head_rows_def fge_def tag_def Let_def)
  have cfg: "from_date january_settings = Some ''2024-01-01''"
    "to_date january_settings = Some ''2024-01-31''"
    "congested_buckets january_settings = [''9-12 Days'', ''13+ Days'']"
    "slow_outgate_buckets january_settings = [''5-8 Days'', ''9-12 Days'', ''13+ Days'']"
    "volume_pressure_high january_settings = Fin (115 / 100)"
    "volume_pressure_low january_settings = Fin (90 / 100)"
    "terminal_loaded_high january_settings = Fin (25 / 100)"
    "terminal_empty_high january_settings = Fin (50 / 100)"
    "outgate_slow_high january_settings = Fin (40 / 100)"
    "berth_high_hours january_settings = Fin 24"
    "berth_top_n january_settings = 5"
    by (simp_all add: january_settings_def default_settings_def)
  show ?thesis
    unfolding run_pipeline_def w t g b cfg and_then_def sum.case Let_def kw kt kg kb
    by (simp add: build_health_summary_def flag_for_load_type_def
        str_lower_def lower_char_def weekly_columns_def terminal_columns_def outgate_columns_def
        berth_columns_def health_columns_def opt_col_def opt_cell_def)
qed


lemma tag_Some: "v = Some s \<and> s \<noteq> [] \<longrightarrow> tag v = Some s"
  by (simp add: tag_def)

text \<open>
  C9, as stated, fails for the health summary: with a reporting date range configured,
  its row carries \<open>extraction_ts_utc\<close> but no \<open>from_date\<close> or \<open>to_date\<close> column.
\<close>

theorem C9_health_tags_counterexample:
  "from_date january_settings = Some ''2024-01-01''
   \<and> to_date january_settings = Some ''2024-01-31''
   \<and> (case run_pipeline sample_lib january_settings sample_ts
              (PList week_items) (PList yard_items) (PList gate_items) (PList dock_items) of
         Inl e \<Rightarrow> None
       | Inr tables \<Rightarrow> map_of tables ''kpi_health_summary'')
     = Some [[(''volume_pressure_flag'', CStr ''HIGH''),
              (''terminal_congestion_loaded_flag'', CStr ''HIGH''),
              (''terminal_congestion_empty_flag'', CStr ''UNKNOWN''),
              (''outgate_stress_high_statuses'', CStr ''Export''),
              (''berth_flag'', CStr ''HIGH''),
              (''extraction_ts_utc'', CTimestamp sample_ts)]]"
  unfolding sample_run by (simp add: january_settings_def default_settings_def)

text \<open>
  C9, amended. A run that succeeds writes the five tables. Every row of every table
  carries the run's \<open>extraction_ts_utc\<close>. Every row of the weekly, terminal, outgate and
  berth tables carries \<open>from_date\<close> and \<open>to_date\<close> exactly as configured when the
  setting is a non-empty string, and has no such column otherwise. The rows of the
  health summary never have a \<open>from_date\<close> or \<open>to_date\<close> column.
\<close>

theorem C9_run_tags:
  assumes "run_pipeline l cfg ts wp tp gp bp = Inr tables"
  shows "map fst tables =
           [''kpi_weekly_volume_pressure'', ''kpi_terminal_congestion'',
            ''kpi_outgate_stress_by_status'', ''kpi_berth_snapshot'', ''kpi_health_summary'']
       \<and> (\<forall>t \<in> set tables. \<forall>row \<in> set (snd t).
             map_of row ''extraction_ts_utc'' = Some (CTimestamp ts))
       \<and> (\<forall>t \<in> set tables. fst t \<noteq> ''kpi_health_summary'' \<longrightarrow>
             (\<forall>row \<in> set (snd t).
                 map_of row ''from_date'' = map_option CStr (tag (from_date cfg))
               \<and> map_of row ''to_date'' = map_option CStr (tag (to_date cfg))))
       \<and> (\<forall>t \<in> set tables. fst t = ''kpi_health_summary'' \<longrightarrow>
             (\<forall>row \<in> set (snd t).
                 map_of row ''from_date'' = None \<and> map_of row ''to_date'' = None))
       \<and> (\<forall>s. from_date cfg = Some s \<and> s \<noteq> [] \<longrightarrow> tag (from_date cfg) = Some s)
       \<and> (\<forall>s. to_date cfg = Some s \<and> s \<noteq> [] \<longrightarrow> tag (to_date cfg) = Some s)"
proof -
  let ?fd = "from_date cfg" and ?td = "to_date cfg"
  from assms obtain weekly_df kpi_terminal terminal_df kpi_outgate outgate_df berth_df kpi_health
    where tables: "tables =
       [(''kpi_weekly_volume_pressure'', map weekly_columns
           (build_weekly_volume_pressure weekly_df ts ?fd ?td
              (volume_pressure_high cfg) (volume_pressure_low cfg))),
        (''kpi_terminal_congestion'', map terminal_columns kpi_terminal),
        (''kpi_outgate_stress_by_status'', map outgate_columns kpi_outgate),
        (''kpi_berth_snapshot'', map berth_columns
           (build_berth_snapshot berth_df ts ?fd ?td (berth_high_hours cfg) (berth_top_n cfg))),
        (''kpi_health_summary'', map health_columns kpi_health)]"
    and kt: "build_terminal_congestion terminal_df ts ?fd ?td (congested_buckets cfg)
       (terminal_loaded_high cfg) (terminal_empty_high cfg) = Inr kpi_terminal"
    and kg: "build_outgate_stress_by_status outgate_df ts ?fd ?td
       (slow_outgate_buckets cfg) (outgate_slow_high cfg) = Inr kpi_outgate"
    and kh: "build_health_summary
       (build_weekly_volume_pressure weekly_df ts ?fd ?td
              (volume_pressure_high cfg) (volume_pressure_low cfg))
       kpi_terminal kpi_outgate
       (build_berth_snapshot berth_df ts ?fd ?td (berth_high_hours cfg) (berth_top_n cfg)) ts
         = Inr kpi_health"
    by (rule run_pipeline_Inr)
  have w: "map_of row ''extraction_ts_utc'' = Some (CTimestamp ts)
         \<and> map_of row ''from_date'' = map_option CStr (tag ?fd)
         \<and> map_of row ''to_date'' = map_option CStr (tag ?td)"
    if "row \<in> set (map weekly_columns (build_weekly_volume_pressure weekly_df ts ?fd ?td
              (volume_pressure_high cfg) (volume_pressure_low cfg)))" for row
    using that build_weekly_tags by (auto simp: weekly_columns_tags)
  have t: "map_of row ''extraction_ts_utc'' = Some (CTimestamp ts)
         \<and> map_of row ''from_date'' = map_option CStr (tag ?fd)
         \<and> map_of row ''to_date'' = map_option CStr (tag ?td)"
    if "row \<in> set (map terminal_columns kpi_terminal)" for row
    using that build_terminal_tags[OF kt] by (auto simp: terminal_columns_tags)
  have g: "map_of row ''extraction_ts_utc'' = Some (CTimestamp ts)
         \<and> map_of row ''from_date'' = map_option CStr (tag ?fd)
         \<and> map_of row ''to_date'' = map_option CStr (tag ?td)"
    if "row \<in> set (map outgate_columns kpi_outgate)" for row
    using that build_outgate_tags[OF kg] by (auto simp: outgate_columns_tags)
  have b: "map_of row ''extraction_ts_utc'' = Some (CTimestamp ts)
         \<and> map_of row ''from_date'' = map_option CStr (tag ?fd)
         \<and> map_of row ''to_date'' = map_option CStr (tag ?td)"
    if "row \<in> set (map berth_columns
           (build_berth_snapshot berth_df ts ?fd ?td (berth_high_hours cfg) (berth_top_n cfg)))"
    for row
    using that build_berth_tags by (auto simp: berth_columns_tags)
  have h: "map_of row ''extraction_ts_utc'' = Some (CTimestamp ts)
         \<and> map_of row ''from_date'' = None \<and> map_of row ''to_date'' = None"
    if "row \<in> set (map health_columns kpi_health)" for row
    using that build_health_tag[OF kh] by (auto simp: health_columns_tags)
  have 1: "map fst tables =
           [''kpi_weekly_volume_pressure'', ''kpi_terminal_congestion'',
            ''kpi_outgate_stress_by_status'', ''kpi_berth_snapshot'', ''kpi_health_summary'']"
    by (simp add: tables)
  have 2: "\<forall>t \<in> set tables. \<forall>row \<in> set (snd t).
             map_of row ''extraction_ts_utc'' = Some (CTimestamp ts)"
    unfolding tables using w t g b h by simp
  have 3: "\<forall>t \<in> set tables. fst t \<noteq> ''kpi_health_summary'' \<longrightarrow>
             (\<forall>row \<in> set (snd t).
                 map_of row ''from_date'' = map_option CStr (tag ?fd)
               \<and> map_of row ''to_date'' = map_option CStr (tag ?td))"
    unfolding tables using w t g b by simp
  have 4: "\<forall>t \<in> set tables. fst t = ''kpi_health_summary'' \<longrightarrow>
             (\<forall>row \<in> set (snd t).
                 map_of row ''from_date'' = None \<and> map_of row ''to_date'' = None)"
    unfolding tables using h by simp
  have 5: "\<forall>s. from_date cfg = Some s \<and> s \<noteq> [] \<longrightarrow> tag (from_date cfg) = Some s"
    "\<forall>s. to_date cfg = Some s \<and> s \<noteq> [] \<longrightarrow> tag (to_date cfg) = Some s"
    using tag_Some by blast+
  from 1 2 3 4 5 show ?thesis by blast
qed


text \<open>The sample run succeeds; its first weekly row carries the configured range and the
  run's timestamp, its health row the timestamp only.\<close>

theorem C9_run_tags_witness:
  "\<exists>tables weekly health.
      run_pipeline sample_lib january_settings sample_ts
          (PList week_items) (PList yard_items) (PList gate_items) (PList dock_items)
        = Inr tables
    \<and> map_of tables ''kpi_weekly_volume_pressure'' = Some weekly
    \<and> map_of (hd weekly) ''extraction_ts_utc'' = Some (CTimestamp sample_ts)
    \<and> map_of (hd weekly) ''from_date'' = Some (CStr ''2024-01-01'')
    \<and> map_of (hd weekly) ''to_date'' = Some (CStr ''2024-01-31'')
    \<and> map_of tables ''kpi_health_summary'' = Some health
    \<and> map_of (hd health) ''extraction_ts_utc'' = Some (CTimestamp sample_ts)
    \<and> map_of (hd health) ''from_date'' = None"
proof -
  obtain tables where run: "run_pipeline sample_lib january_settings sample_ts
          (PList week_items) (PList yard_items) (PList gate_items) (PList dock_items)
        = Inr tables"
    and names: "map fst tables =
           [''kpi_weekly_volume_pressure'', ''kpi_terminal_congestion'',
            ''kpi_outgate_stress_by_status'', ''kpi_berth_snapshot'', ''kpi_health_summary'']"
    and lens: "map (\<lambda>t. snd t = []) tables = [False, False, False, False, False]"
    using sample_run by simp
  note C = C9_run_tags [OF run]
  from names lens obtain weekly t2 t3 t4 health where
    tables: "tables = [(''kpi_weekly_volume_pressure'', weekly), (''kpi_terminal_congestion'', t2),
       (''kpi_outgate_stress_by_status'', t3), (''kpi_berth_snapshot'', t4),
       (''kpi_health_summary'', health)]"
    and ne: "weekly \<noteq> []" "health \<noteq> []"
    by (auto simp: map_eq_Cons_conv)
  have fd: "tag (from_date january_settings) = Some ''2024-01-01''"
    "tag (to_date january_settings) = Some ''2024-01-31''"
    by (simp_all add: january_settings_def default_settings_def tag_def)
  have wm: "(''kpi_weekly_volume_pressure'', weekly) \<in> set tables"
    and hm: "(''kpi_health_summary'', health) \<in> set tables"
    by (simp_all add: tables)
  have wr: "hd weekly \<in> set (snd (''kpi_weekly_volume_pressure'', weekly))"
    and hr: "hd health \<in> set (snd (''kpi_health_summary'', health))"
    using ne by simp_all
  have w1: "map_of (hd weekly) ''extraction_ts_utc'' = Some (CTimestamp sample_ts)"
    using C wm wr by blast
  have w2: "map_of (hd weekly) ''from_date'' = Some (CStr ''2024-01-01'')
          \<and> map_of (hd weekly) ''to_date'' = Some (CStr ''2024-01-31'')"
  proof -
    have "fst (''kpi_weekly_volume_pressure'', weekly) \<noteq> ''kpi_health_summary''" by simp
    then have "map_of (hd weekly) ''from_date'' = map_option CStr (tag (from_date january_settings))
          \<and> map_of (hd weekly) ''to_date'' = map_option CStr (tag (to_date january_settings))"
      using C wm wr by blast
    then show ?thesis by (simp add: fd)
  qed
  have h1: "map_of (hd health) ''extraction_ts_utc'' = Some (CTimestamp sample_ts)"
    using C hm hr by blast
  have h2: "map_of (hd health) ''from_date'' = None"
  proof -
    have "fst (''kpi_health_summary'', health) = ''kpi_health_summary''" by simp
    then show ?thesis using C hm hr by blast
  qed
  have m: "map_of tables ''kpi_weekly_volume_pressure'' = Some weekly"
    "map_of tables ''kpi_health_summary'' = Some health"
    by (simp_all add: tables)
  from run m w1 w2 h1 h2 show ?thesis by blast
qed

end
